theory Spec2Isabelle
  imports Complex_Main "HOL-Library.Sublist"
begin

section \<open>Data model of \<^verbatim>\<open>database2.py\<close>\<close>

text \<open>
  The module manages four tables (\<^verbatim>\<open>units\<close>, \<^verbatim>\<open>type\<close>, \<^verbatim>\<open>sensor\<close>,
  \<^verbatim>\<open>measurement\<close>) through two connector classes, \<^verbatim>\<open>DatabaseConnector\<close>
  (SQLite) and \<^verbatim>\<open>PostgreSQLConnector\<close>. The Python exceptions that the modelled
  paths can raise are values of \<open>error\<close>:
  \<^item> \<open>NameError\<close>: a global name that is not bound (\<^verbatim>\<open>sqlite3\<close> in
    \<^verbatim>\<open>_create_database\<close>, see below);
  \<^item> \<open>KeyError\<close>: \<^verbatim>\<open>self._sensors[name]\<close> on a name that is not a key;
  \<^item> \<open>TypeError\<close>: \<^verbatim>\<open>curs.fetchone()[0]\<close> when \<^verbatim>\<open>fetchone()\<close> is
    \<^verbatim>\<open>None\<close>;
  \<^item> \<open>IntegrityError\<close>: a constraint violation that the statement does not absorb;
  \<^item> \<open>OperationalError\<close>, \<open>ProgrammingError\<close>: a statement that names a column or a
    constraint the table does not have.
\<close>

datatype error =
  NameError | KeyError | TypeError | IntegrityError | OperationalError | ProgrammingError

text \<open>
  A name handed to the connector is what the accessor of the \<^verbatim>\<open>Sensor\<close> or
  \<^verbatim>\<open>Measurement\<close> object returns: a \<^verbatim>\<open>str\<close>, or \<^verbatim>\<open>None\<close>. Bound
  to an SQL parameter, \<^verbatim>\<open>None\<close> is \<^verbatim>\<open>NULL\<close>.
\<close>

type_synonym pyname = "string option"

record sensor =
  get_name :: pyname
  get_type :: pyname
  get_units :: pyname

record measurement =
  get_timestamp :: "string option"
  get_id :: pyname
  get_data :: "real option"

text \<open>
  A row of \<^verbatim>\<open>units\<close>, \<^verbatim>\<open>type\<close> or \<^verbatim>\<open>sensor\<close>: the integer primary key
  \<^verbatim>\<open>id\<close>, the \<^verbatim>\<open>name\<close> (\<^verbatim>\<open>TEXT NOT NULL UNIQUE\<close>) and the reference to the
  parent level (\<^verbatim>\<open>type.units\<close>, nullable; \<^verbatim>\<open>sensor.type\<close>, \<^verbatim>\<open>NOT NULL\<close>;
  \<^verbatim>\<open>units\<close> has no such column and its rows carry \<open>None\<close>). A table is the list of
  its rows in insertion order. The value of a measurement is stored and compared, never
  computed with.
\<close>

record row =
  row_id :: int
  row_name :: string
  row_ref :: "int option"

record mrow =
  m_timestamp :: string
  m_sensor :: int
  m_value :: real

record database =
  tbl_units :: "row list"
  tbl_type :: "row list"
  tbl_sensor :: "row list"
  tbl_measurement :: "mrow list"

datatype table = UnitsTable | TypeTable | SensorTable

fun rows_of :: "table \<Rightarrow> database \<Rightarrow> row list" where
  "rows_of UnitsTable db = tbl_units db"
| "rows_of TypeTable db = tbl_type db"
| "rows_of SensorTable db = tbl_sensor db"

fun set_rows :: "table \<Rightarrow> row list \<Rightarrow> database \<Rightarrow> database" where
  "set_rows UnitsTable rs db = db\<lparr>tbl_units := rs\<rparr>"
| "set_rows TypeTable rs db = db\<lparr>tbl_type := rs\<rparr>"
| "set_rows SensorTable rs db = db\<lparr>tbl_sensor := rs\<rparr>"

text \<open>
  The tuple \<^verbatim>\<open>items\<close> of the nested function \<^verbatim>\<open>insert_and_recall_id\<close>:
  \<^verbatim>\<open>(name,)\<close> or \<^verbatim>\<open>(name, parent_id)\<close>. At the three call sites \<^verbatim>\<open>cols\<close> is
  \<^verbatim>\<open>("name",)\<close> with a 1-tuple and \<^verbatim>\<open>("name", <reference column>)\<close> with a pair,
  so the test \<^verbatim>\<open>len(items) == 2 and len(cols) == 2\<close> is the test for a pair and
  \<^verbatim>\<open>cols\<close> is determined by the table.
\<close>

datatype items = Tuple1 pyname | Tuple2 pyname int

fun item0 :: "items \<Rightarrow> pyname" where
  "item0 (Tuple1 n) = n"
| "item0 (Tuple2 n p) = n"

fun item1 :: "items \<Rightarrow> int option" where
  "item1 (Tuple1 n) = None"
| "item1 (Tuple2 n p) = Some p"

text \<open>A Python \<^verbatim>\<open>dict\<close> from names to ids, in insertion order.\<close>

type_synonym id_dict = "(pyname \<times> int) list"

record connector =
  self_connection :: database
  self_units :: id_dict
  self_types :: id_dict
  self_sensors :: id_dict

section \<open>The SQL statements on SQLite\<close>

text \<open>
  \<^verbatim>\<open>id INTEGER, PRIMARY KEY(id)\<close> makes \<^verbatim>\<open>id\<close> the rowid: an insert that gives no
  id takes 1 in an empty table and one more than the largest id otherwise. Ids are
  modelled as unbounded integers: SQLite's rowid is a signed 64-bit integer, and a table
  whose largest id is 9223372036854775807 (which only an insert with an explicit id can
  produce; this module makes none) takes an unused id at random instead.
\<close>

definition new_rowid :: "row list \<Rightarrow> int" where
  "new_rowid rs = (case rs of [] \<Rightarrow> 1 | r # rs' \<Rightarrow> fold max (map row_id rs') (row_id r) + 1)"

text \<open>
  \<^verbatim>\<open>INSERT OR IGNORE INTO table (name[, ref]) VALUES (?[, ?])\<close>: the row is skipped
  when it violates \<^verbatim>\<open>NOT NULL\<close> or \<^verbatim>\<open>UNIQUE\<close>, and appended otherwise. A pair
  sent to \<^verbatim>\<open>units\<close>, which has no reference column, is an error of the statement.
\<close>

definition insert_or_ignore :: "table \<Rightarrow> items \<Rightarrow> database \<Rightarrow> error + database" where
  "insert_or_ignore table items db =
     (if table = UnitsTable \<and> item1 items \<noteq> None then Inl OperationalError
      else Inr (case item0 items of
          None \<Rightarrow> db
        | Some n \<Rightarrow>
            if n \<in> set (map row_name (rows_of table db)) then db
            else if table = SensorTable \<and> item1 items = None then db
            else set_rows table
                   (rows_of table db @
                      [\<lparr>row_id = new_rowid (rows_of table db), row_name = n,
                        row_ref = item1 items\<rparr>]) db))"

text \<open>\<^verbatim>\<open>SELECT id FROM table WHERE name = ?\<close>; no row equals \<^verbatim>\<open>NULL\<close>.\<close>

definition select_id :: "table \<Rightarrow> pyname \<Rightarrow> database \<Rightarrow> int list" where
  "select_id table key db =
     (case key of
        None \<Rightarrow> []
      | Some n \<Rightarrow> map row_id (filter (\<lambda>r. row_name r = n) (rows_of table db)))"

definition fetchone :: "'a list \<Rightarrow> 'a option" where
  "fetchone rs = (case rs of [] \<Rightarrow> None | r # _ \<Rightarrow> Some r)"

text \<open>
  \<^verbatim>\<open>INSERT INTO measurement (timestamp, sensor, value) VALUES (?, ?, ?)\<close>: all three
  columns are \<^verbatim>\<open>NOT NULL\<close> and \<^verbatim>\<open>(timestamp, sensor)\<close> is the primary key. A
  violation raises \<^verbatim>\<open>IntegrityError\<close> and leaves the table as it was.
\<close>

definition insert_measurement ::
  "string option \<Rightarrow> int \<Rightarrow> real option \<Rightarrow> database \<Rightarrow> error + database" where
  "insert_measurement ts sid v db =
     (case ts of
        None \<Rightarrow> Inl IntegrityError
      | Some t \<Rightarrow>
          (case v of
             None \<Rightarrow> Inl IntegrityError
           | Some x \<Rightarrow>
               if (t, sid) \<in> set (map (\<lambda>m. (m_timestamp m, m_sensor m)) (tbl_measurement db))
               then Inl IntegrityError
               else Inr (db\<lparr>tbl_measurement := tbl_measurement db @
                          [\<lparr>m_timestamp = t, m_sensor = sid, m_value = x\<rparr>]\<rparr>)))"

section \<open>\<^verbatim>\<open>DatabaseConnector\<close>\<close>

text \<open>
  \<^verbatim>\<open>_create_database\<close> (lines 27 to 95) opens the file and, for each of the four
  tables, runs \<^verbatim>\<open>DROP TABLE IF EXISTS\<close> and \<^verbatim>\<open>CREATE TABLE\<close>. Its first statement
  is \<^verbatim>\<open>sqlite3.Connection(filename)\<close>, and the module binds \<^verbatim>\<open>sqlite3\<close> only
  inside \<^verbatim>\<open>__init__\<close> (line 17), so the name is looked up in the module's globals:
  \<open>sqlite3_global\<close> says whether it is bound there when the method runs. No statement
  of the module binds it there, so for the file as it stands the parameter is \<open>False\<close>.
\<close>

definition create_database :: "bool \<Rightarrow> database \<Rightarrow> error + database" where
  "create_database sqlite3_global file =
     (if \<not> sqlite3_global then Inl NameError
      else Inr \<lparr>tbl_units = [], tbl_type = [], tbl_sensor = [], tbl_measurement = []\<rparr>)"

definition DatabaseConnector_init :: "bool \<Rightarrow> database \<Rightarrow> error + connector" where
  "DatabaseConnector_init sqlite3_global file =
     (case create_database sqlite3_global file of
        Inl e \<Rightarrow> Inl e
      | Inr conn \<Rightarrow>
          Inr \<lparr>self_connection = conn, self_units = [], self_types = [], self_sensors = []\<rparr>)"

text \<open>
  The database file as the constructor leaves it: the statements of
  \<^verbatim>\<open>_create_database\<close> run on the file itself, and an exception before the first of
  them leaves the file as it was.
\<close>

definition file_after_init :: "bool \<Rightarrow> database \<Rightarrow> database" where
  "file_after_init sqlite3_global file =
     (case create_database sqlite3_global file of Inl e \<Rightarrow> file | Inr conn \<Rightarrow> conn)"

text \<open>
  The nested function of \<^verbatim>\<open>register_sensor\<close> (lines 123 to 139). It returns what it
  returns or raises, the dictionary and the database as the connection sees it.
\<close>

definition insert_and_recall_id ::
  "items \<Rightarrow> table \<Rightarrow> id_dict \<Rightarrow> database \<Rightarrow> (error + int) \<times> id_dict \<times> database" where
  "insert_and_recall_id items table id_dict db =
     (case insert_or_ignore table items db of
        Inl e \<Rightarrow> (Inl e, id_dict, db)
      | Inr db1 \<Rightarrow>
          (case fetchone (select_id table (item0 items) db1) of
             None \<Rightarrow> (Inl TypeError, id_dict, db1)
           | Some item_id \<Rightarrow>
               (Inr item_id,
                (if map_of id_dict (item0 items) = None
                 then id_dict @ [(item0 items, item_id)] else id_dict),
                db1)))"

text \<open>
  The body of \<^verbatim>\<open>register_sensor\<close> (lines 141 to 153) with its three local variables
  \<^verbatim>\<open>units_id\<close>, \<^verbatim>\<open>type_id\<close>, \<^verbatim>\<open>sensor_id\<close> as the result. The commit on line 153
  does not change what the connection sees.
\<close>

definition register_sensor_ids ::
  "connector \<Rightarrow> sensor \<Rightarrow> (error + int \<times> int \<times> int) \<times> connector" where
  "register_sensor_ids self sensor =
     (case insert_and_recall_id (Tuple1 (get_units sensor)) UnitsTable
             (self_units self) (self_connection self) of
        (Inl e, d1, db1) \<Rightarrow> (Inl e, self\<lparr>self_connection := db1, self_units := d1\<rparr>)
      | (Inr units_id, d1, db1) \<Rightarrow>
          (case insert_and_recall_id (Tuple2 (get_type sensor) units_id) TypeTable
                  (self_types self) db1 of
             (Inl e, d2, db2) \<Rightarrow>
               (Inl e, self\<lparr>self_connection := db2, self_units := d1, self_types := d2\<rparr>)
           | (Inr type_id, d2, db2) \<Rightarrow>
               (case insert_and_recall_id (Tuple2 (get_name sensor) type_id) SensorTable
                       (self_sensors self) db2 of
                  (Inl e, d3, db3) \<Rightarrow>
                    (Inl e, self\<lparr>self_connection := db3, self_units := d1,
                                self_types := d2, self_sensors := d3\<rparr>)
                | (Inr sensor_id, d3, db3) \<Rightarrow>
                    (Inr (units_id, type_id, sensor_id),
                     self\<lparr>self_connection := db3, self_units := d1,
                          self_types := d2, self_sensors := d3\<rparr>))))"

text \<open>\<^verbatim>\<open>register_sensor\<close> itself returns \<^verbatim>\<open>None\<close>.\<close>

definition register_sensor :: "connector \<Rightarrow> sensor \<Rightarrow> (error + unit) \<times> connector" where
  "register_sensor self sensor =
     (case register_sensor_ids self sensor of
        (Inl e, self') \<Rightarrow> (Inl e, self')
      | (Inr ids, self') \<Rightarrow> (Inr (), self'))"

text \<open>\<^verbatim>\<open>store_measurement\<close> (lines 97 to 110).\<close>

definition store_measurement :: "connector \<Rightarrow> measurement \<Rightarrow> (error + unit) \<times> connector" where
  "store_measurement self meas =
     (case map_of (self_sensors self) (get_id meas) of
        None \<Rightarrow> (Inl KeyError, self)
      | Some name_id \<Rightarrow>
          (case insert_measurement (get_timestamp meas) name_id (get_data meas)
                  (self_connection self) of
             Inl e \<Rightarrow> (Inl e, self)
           | Inr db' \<Rightarrow> (Inr (), self\<lparr>self_connection := db'\<rparr>)))"

text \<open>
  A caller's use of one connector: a sequence of the two public operations, each run to
  its return or its exception, the next one on the connector as the previous left it.
\<close>

datatype op = Register sensor | Store measurement

fun step :: "connector \<Rightarrow> op \<Rightarrow> connector" where
  "step self (Register sensor) = snd (register_sensor self sensor)"
| "step self (Store meas) = snd (store_measurement self meas)"

definition run :: "op list \<Rightarrow> connector \<Rightarrow> connector" where
  "run ops self = foldl step self ops"

fun registers :: "pyname \<Rightarrow> op \<Rightarrow> bool" where
  "registers n (Register sensor) = (get_name sensor = n)"
| "registers n (Store meas) = False"

section \<open>\<^verbatim>\<open>PostgreSQLConnector\<close>\<close>

text \<open>
  Modelled from the spec: the schema of the client-server database is not in the
  repository. The spec gives it the columns and constraints of the SQLite schema
  (\<^verbatim>\<open>name UNIQUE NOT NULL\<close> on the three levels, \<^verbatim>\<open>sensor.type NOT NULL\<close>), a
  named uniqueness constraint on each \<^verbatim>\<open>name\<close> column, and ids generated by the
  storage engine. The names of the constraints are those the code passes; the id that the
  engine generates for a new row of a table during one call is the parameter
  \<open>nextval\<close>.
\<close>

definition name_key :: "table \<Rightarrow> string" where
  "name_key table =
     (case table of
        UnitsTable \<Rightarrow> ''units_name_key''
      | TypeTable \<Rightarrow> ''type_name_key''
      | SensorTable \<Rightarrow> ''sensor_name_key'')"

text \<open>
  \<^verbatim>\<open>INSERT INTO table (name[, ref]) VALUES (%s[, %s]) ON CONFLICT ON CONSTRAINT c DO
  NOTHING\<close>: only a conflict on the constraint \<open>c\<close> is absorbed. A \<^verbatim>\<open>NULL\<close> in a
  \<^verbatim>\<open>NOT NULL\<close> column and a generated id that is already a primary key raise
  \<^verbatim>\<open>IntegrityError\<close>.
\<close>

definition pg_insert_on_conflict ::
  "(table \<Rightarrow> int) \<Rightarrow> table \<Rightarrow> items \<Rightarrow> string \<Rightarrow> database \<Rightarrow> error + database" where
  "pg_insert_on_conflict nextval table items constraint_name db =
     (if table = UnitsTable \<and> item1 items \<noteq> None then Inl ProgrammingError
      else if constraint_name \<noteq> name_key table then Inl ProgrammingError
      else (case item0 items of
          None \<Rightarrow> Inl IntegrityError
        | Some n \<Rightarrow>
            if table = SensorTable \<and> item1 items = None then Inl IntegrityError
            else if n \<in> set (map row_name (rows_of table db)) then Inr db
            else if nextval table \<in> set (map row_id (rows_of table db)) then Inl IntegrityError
            else Inr (set_rows table
                   (rows_of table db @
                      [\<lparr>row_id = nextval table, row_name = n, row_ref = item1 items\<rparr>]) db)))"

text \<open>
  The nested function of \<^verbatim>\<open>PostgreSQLConnector.register_sensor\<close> (lines 200 to 220).
  An exception leaves the transaction aborted, and the class never rolls back: the model
  of this connector ends at the exception.
\<close>

definition pg_insert_and_recall_id ::
  "(table \<Rightarrow> int) \<Rightarrow> items \<Rightarrow> table \<Rightarrow> string \<Rightarrow> id_dict \<Rightarrow> database \<Rightarrow>
     error + int \<times> id_dict \<times> database" where
  "pg_insert_and_recall_id nextval items table constraint_name id_dict db =
     (case pg_insert_on_conflict nextval table items constraint_name db of
        Inl e \<Rightarrow> Inl e
      | Inr db1 \<Rightarrow>
          (case fetchone (select_id table (item0 items) db1) of
             None \<Rightarrow> Inl TypeError
           | Some item_id \<Rightarrow>
               Inr (item_id,
                 (if map_of id_dict (item0 items) = None
                  then id_dict @ [(item0 items, item_id)] else id_dict),
                 db1)))"

definition pg_register_sensor_ids ::
  "(table \<Rightarrow> int) \<Rightarrow> connector \<Rightarrow> sensor \<Rightarrow> error + (int \<times> int \<times> int) \<times> connector" where
  "pg_register_sensor_ids nextval self sensor =
     (case pg_insert_and_recall_id nextval (Tuple1 (get_units sensor)) UnitsTable
             ''units_name_key'' (self_units self) (self_connection self) of
        Inl e \<Rightarrow> Inl e
      | Inr (units_id, d1, db1) \<Rightarrow>
          (case pg_insert_and_recall_id nextval (Tuple2 (get_type sensor) units_id) TypeTable
                  ''type_name_key'' (self_types self) db1 of
             Inl e \<Rightarrow> Inl e
           | Inr (type_id, d2, db2) \<Rightarrow>
               (case pg_insert_and_recall_id nextval (Tuple2 (get_name sensor) type_id)
                       SensorTable ''sensor_name_key'' (self_sensors self) db2 of
                  Inl e \<Rightarrow> Inl e
                | Inr (sensor_id, d3, db3) \<Rightarrow>
                    Inr ((units_id, type_id, sensor_id),
                      self\<lparr>self_connection := db3, self_units := d1,
                           self_types := d2, self_sensors := d3\<rparr>))))"

definition pg_register_sensor ::
  "(table \<Rightarrow> int) \<Rightarrow> connector \<Rightarrow> sensor \<Rightarrow> error + connector" where
  "pg_register_sensor nextval self sensor =
     (case pg_register_sensor_ids nextval self sensor of
        Inl e \<Rightarrow> Inl e
      | Inr (ids, self') \<Rightarrow> Inr self')"

text \<open>
  \<^verbatim>\<open>PostgreSQLConnector.store_measurement\<close> (lines 175 to 188). PostgreSQL enforces
  the foreign key of \<^verbatim>\<open>measurement.sensor\<close>.
\<close>

definition pg_store_measurement :: "connector \<Rightarrow> measurement \<Rightarrow> error + connector" where
  "pg_store_measurement self meas =
     (case map_of (self_sensors self) (get_id meas) of
        None \<Rightarrow> Inl KeyError
      | Some name_id \<Rightarrow>
          if name_id \<notin> set (map row_id (tbl_sensor (self_connection self)))
          then Inl IntegrityError
          else (case insert_measurement (get_timestamp meas) name_id (get_data meas)
                       (self_connection self) of
                  Inl e \<Rightarrow> Inl e
                | Inr db' \<Rightarrow> Inr (self\<lparr>self_connection := db'\<rparr>)))"

text \<open>
  \<^verbatim>\<open>PostgreSQLConnector.__init__\<close> (lines 161 to 173) connects to the database as it
  is and starts with empty dictionaries.
\<close>

definition PostgreSQLConnector_init :: "database \<Rightarrow> connector" where
  "PostgreSQLConnector_init db =
     \<lparr>self_connection = db, self_units = [], self_types = [], self_sensors = []\<rparr>"

section \<open>Predicates of the properties\<close>

text \<open>The statement has a shape its table cannot take.\<close>

definition bad_shape :: "table \<Rightarrow> items \<Rightarrow> bool" where
  "bad_shape t items = (t = UnitsTable \<and> item1 items \<noteq> None)"

text \<open>The row of the statement violates a constraint of the table with rows \<open>rs\<close>.\<close>

definition skipped :: "table \<Rightarrow> items \<Rightarrow> row list \<Rightarrow> bool" where
  "skipped t items rs =
     (case item0 items of
        None \<Rightarrow> True
      | Some n \<Rightarrow> n \<in> set (map row_name rs) \<or> (t = SensorTable \<and> item1 items = None))"

text \<open>Every entry of a dictionary is the id that the table stores under the name.\<close>

definition dict_agrees :: "table \<Rightarrow> id_dict \<Rightarrow> database \<Rightarrow> bool" where
  "dict_agrees t d db = list_all (\<lambda>(k, i). fetchone (select_id t k db) = Some i) d"

definition coherent :: "connector \<Rightarrow> bool" where
  "coherent self =
     (dict_agrees UnitsTable (self_units self) (self_connection self) \<and>
      dict_agrees TypeTable (self_types self) (self_connection self) \<and>
      dict_agrees SensorTable (self_sensors self) (self_connection self))"

text \<open>Every row of \<open>db\<close> is in \<open>db'\<close>, unchanged and at the same place.\<close>

definition rows_kept :: "database \<Rightarrow> database \<Rightarrow> bool" where
  "rows_kept db db' =
     (prefix (tbl_units db) (tbl_units db') \<and> prefix (tbl_type db) (tbl_type db') \<and>
      prefix (tbl_sensor db) (tbl_sensor db') \<and>
      prefix (tbl_measurement db) (tbl_measurement db'))"






section \<open>Sample data\<close>

text \<open>
  The data of the examples: the empty database \<open>no_rows\<close> and the connector
  \<open>fresh\<close> that starts on it with empty dictionaries; the sensor \<open>tempA\<close> of the
  spec's end-to-end scenario and the connector \<open>after_tempA\<close> once it is registered;
  the two measurements of the spec's duplicate scenario (\<open>meas_10h 21.5\<close> and
  \<open>meas_10h 99.9\<close>), the connector \<open>after_10h\<close> once the first is stored, and a
  measurement \<open>meas_tempB\<close> of a sensor that is not registered; a description without
  units name (\<open>no_units\<close>); the name of \<open>tempA\<close> with another type (\<open>humidA\<close>)
  and the connector \<open>after_humidA\<close> once it is registered after \<open>tempA\<close>; a sensor
  \<open>tempK\<close> of the same type with other units, and the connectors once it is registered
  after \<open>tempA\<close>: \<open>after_tempK\<close> on SQLite, \<open>after_tempK_pg\<close> on PostgreSQL when
  the engine generates the id 3.
\<close>

definition no_rows :: database where
  "no_rows = \<lparr>tbl_units = [], tbl_type = [], tbl_sensor = [], tbl_measurement = []\<rparr>"

definition fresh :: connector where
  "fresh = \<lparr>self_connection = no_rows, self_units = [], self_types = [], self_sensors = []\<rparr>"

definition tempA :: sensor where
  "tempA = \<lparr>get_name = Some ''tempA'', get_type = Some ''temperature'',
     get_units = Some ''celsius''\<rparr>"

definition after_tempA :: connector where
  "after_tempA =
     \<lparr>self_connection =
        \<lparr>tbl_units = [\<lparr>row_id = 1, row_name = ''celsius'', row_ref = None\<rparr>],
         tbl_type = [\<lparr>row_id = 1, row_name = ''temperature'', row_ref = Some 1\<rparr>],
         tbl_sensor = [\<lparr>row_id = 1, row_name = ''tempA'', row_ref = Some 1\<rparr>],
         tbl_measurement = []\<rparr>,
      self_units = [(Some ''celsius'', 1)],
      self_types = [(Some ''temperature'', 1)],
      self_sensors = [(Some ''tempA'', 1)]\<rparr>"

definition meas_10h :: "real \<Rightarrow> measurement" where
  "meas_10h x = \<lparr>get_timestamp = Some ''2017-03-28T10:00:00'', get_id = Some ''tempA'',
     get_data = Some x\<rparr>"

definition meas_tempB :: measurement where
  "meas_tempB = \<lparr>get_timestamp = Some ''t1'', get_id = Some ''tempB'', get_data = Some 20\<rparr>"

definition after_10h :: connector where
  "after_10h = after_tempA\<lparr>self_connection := (self_connection after_tempA)
     \<lparr>tbl_measurement := [\<lparr>m_timestamp = ''2017-03-28T10:00:00'', m_sensor = 1,
        m_value = 21.5\<rparr>]\<rparr>\<rparr>"

definition no_units :: sensor where
  "no_units = \<lparr>get_name = Some ''tempA'', get_type = Some ''temperature'', get_units = None\<rparr>"

definition humidA :: sensor where
  "humidA = \<lparr>get_name = Some ''tempA'', get_type = Some ''humidity'',
     get_units = Some ''celsius''\<rparr>"

definition after_humidA :: connector where
  "after_humidA =
     \<lparr>self_connection =
        \<lparr>tbl_units = [\<lparr>row_id = 1, row_name = ''celsius'', row_ref = None\<rparr>],
         tbl_type = [\<lparr>row_id = 1, row_name = ''temperature'', row_ref = Some 1\<rparr>,
                     \<lparr>row_id = 2, row_name = ''humidity'', row_ref = Some 1\<rparr>],
         tbl_sensor = [\<lparr>row_id = 1, row_name = ''tempA'', row_ref = Some 1\<rparr>],
         tbl_measurement = []\<rparr>,
      self_units = [(Some ''celsius'', 1)],
      self_types = [(Some ''temperature'', 1), (Some ''humidity'', 2)],
      self_sensors = [(Some ''tempA'', 1)]\<rparr>"

definition tempK :: sensor where
  "tempK = \<lparr>get_name = Some ''tempK'', get_type = Some ''temperature'',
     get_units = Some ''kelvin''\<rparr>"



section \<open>Tables, statements and one level\<close>

lemma filter_name_absent: "n \<notin> set (map row_name rs) \<Longrightarrow> filter (\<lambda>r. row_name r = n) rs = []"
  by (induction rs) auto

lemma set_rows_same: "set_rows t (rows_of t db) db = db"
  by (cases t) simp_all

lemma rows_of_set_rows: "rows_of t (set_rows t rs db) = rs"
  by (cases t) simp_all

lemma select_id_cong: "rows_of t db2 = rows_of t db1 \<Longrightarrow> select_id t k db2 = select_id t k db1"
  by (simp add: select_id_def split: option.splits)

lemma ioi_bad: "bad_shape t items \<Longrightarrow> insert_or_ignore t items db = Inl OperationalError"
  by (simp add: bad_shape_def insert_or_ignore_def)

lemma ioi_skip:
  "\<not> bad_shape t items \<Longrightarrow> skipped t items (rows_of t db) \<Longrightarrow> insert_or_ignore t items db = Inr db"
  by (auto simp add: bad_shape_def insert_or_ignore_def skipped_def split: option.splits)

lemma ioi_new:
  "\<not> bad_shape t items \<Longrightarrow> \<not> skipped t items (rows_of t db) \<Longrightarrow>
   insert_or_ignore t items db =
     Inr (set_rows t (rows_of t db @
       [\<lparr>row_id = new_rowid (rows_of t db), row_name = the (item0 items), row_ref = item1 items\<rparr>]) db)"
  by (auto simp add: bad_shape_def insert_or_ignore_def skipped_def split: option.splits)

lemma skipped_after:
  "\<not> bad_shape t items \<Longrightarrow> insert_or_ignore t items db = Inr db1 \<Longrightarrow> skipped t items (rows_of t db1)"
proof (cases "skipped t items (rows_of t db)")
  case True
  assume "\<not> bad_shape t items" "insert_or_ignore t items db = Inr db1"
  with True have "db1 = db" by (simp add: ioi_skip)
  with True show ?thesis by simp
next
  case False
  assume a: "\<not> bad_shape t items" "insert_or_ignore t items db = Inr db1"
  from False obtain n where n: "item0 items = Some n" by (auto simp: skipped_def split: option.splits)
  from a False have "rows_of t db1 = rows_of t db @
       [\<lparr>row_id = new_rowid (rows_of t db), row_name = the (item0 items), row_ref = item1 items\<rparr>]"
    by (auto simp: ioi_new rows_of_set_rows)
  with n show ?thesis by (simp add: skipped_def)
qed

lemma ioi_not_bad: "insert_or_ignore t items db = Inr db1 \<Longrightarrow> \<not> bad_shape t items"
  by (auto simp: ioi_bad)

lemma ioi_idem:
  assumes "insert_or_ignore t items db = Inr db1" and "rows_of t db2 = rows_of t db1"
  shows "insert_or_ignore t items db2 = Inr db2"
proof -
  have nb: "\<not> bad_shape t items" using assms(1) by (rule ioi_not_bad)
  have "skipped t items (rows_of t db1)" using nb assms(1) by (rule skipped_after)
  then have "skipped t items (rows_of t db2)" using assms(2) by simp
  with nb show ?thesis by (rule ioi_skip)
qed

lemma iar_Inr:
  assumes "insert_and_recall_id items t d db = (Inr i, d', db')"
  shows "insert_or_ignore t items db = Inr db'"
    and "fetchone (select_id t (item0 items) db') = Some i"
    and "d' = (if map_of d (item0 items) = None then d @ [(item0 items, i)] else d)"
  using assms
  by (auto simp: insert_and_recall_id_def split: sum.splits option.splits)

lemma iar_Inl:
  assumes "insert_and_recall_id items t d db = (Inl e, d', db')"
  shows "d' = d"
    and "(insert_or_ignore t items db = Inl e \<and> db' = db) \<or>
         (insert_or_ignore t items db = Inr db' \<and>
          fetchone (select_id t (item0 items) db') = None \<and> e = TypeError)"
  using assms
  by (auto simp: insert_and_recall_id_def split: sum.splits option.splits)

lemma iar_idem:
  assumes "insert_and_recall_id items t d db = (r, d', db')" and "rows_of t db2 = rows_of t db'"
  shows "insert_and_recall_id items t d' db2 = (r, d', db2)"
proof (cases r)
  case (Inl e)
  note f = iar_Inl[OF assms(1)[unfolded Inl]]
  from f(2) show ?thesis
  proof
    assume a: "insert_or_ignore t items db = Inl e \<and> db' = db"
    then have "bad_shape t items" "e = OperationalError"
      by (auto simp: insert_or_ignore_def bad_shape_def split: if_splits)
    then show ?thesis using Inl f(1) by (simp add: insert_and_recall_id_def ioi_bad)
  next
    assume a: "insert_or_ignore t items db = Inr db' \<and>
          fetchone (select_id t (item0 items) db') = None \<and> e = TypeError"
    then have "insert_or_ignore t items db2 = Inr db2" using ioi_idem assms(2) by blast
    moreover have "select_id t (item0 items) db2 = select_id t (item0 items) db'"
      using assms(2) by (rule select_id_cong)
    ultimately show ?thesis using a Inl f(1) by (simp add: insert_and_recall_id_def)
  qed
next
  case (Inr i)
  note f = iar_Inr[OF assms(1)[unfolded Inr]]
  have "insert_or_ignore t items db2 = Inr db2" using ioi_idem f(1) assms(2) by blast
  moreover have "select_id t (item0 items) db2 = select_id t (item0 items) db'"
    using assms(2) by (rule select_id_cong)
  moreover have "map_of d' (item0 items) \<noteq> None"
    by (subst f(3)) (auto simp: map_of_eq_None_iff)
  ultimately show ?thesis using f(2) Inr by (simp add: insert_and_recall_id_def)
qed

lemma ioi_frame:
  assumes "insert_or_ignore t items db = Inr db1"
  shows "t' \<noteq> t \<Longrightarrow> rows_of t' db1 = rows_of t' db"
    and "tbl_measurement db1 = tbl_measurement db"
proof -
  have nb: "\<not> bad_shape t items" using assms by (rule ioi_not_bad)
  have d: "db1 = db \<or> (\<exists>rs. db1 = set_rows t rs db)"
    using assms nb by (cases "skipped t items (rows_of t db)") (auto simp: ioi_skip ioi_new)
  show "tbl_measurement db1 = tbl_measurement db" using d by (cases t) auto
  show "t' \<noteq> t \<Longrightarrow> rows_of t' db1 = rows_of t' db" using d by (cases t; cases t') auto
qed

lemma iar_frame:
  assumes "insert_and_recall_id items t d db = (r, d', db')"
  shows "t' \<noteq> t \<Longrightarrow> rows_of t' db' = rows_of t' db"
    and "tbl_measurement db' = tbl_measurement db"
proof -
  have "db' = db \<or> insert_or_ignore t items db = Inr db'"
    using assms by (cases r) (auto dest: iar_Inl(2) iar_Inr(1))
  then show "t' \<noteq> t \<Longrightarrow> rows_of t' db' = rows_of t' db" and "tbl_measurement db' = tbl_measurement db"
    using ioi_frame by auto
qed

lemma register_sensor_ids_idem:
  "register_sensor_ids (snd (register_sensor_ids self sensor)) sensor = register_sensor_ids self sensor"
proof -
  obtain r1 d1 db1 where s1: "insert_and_recall_id (Tuple1 (get_units sensor)) UnitsTable
             (self_units self) (self_connection self) = (r1, d1, db1)"
    by (metis prod_cases3)
  note i1 = iar_idem[OF s1]
  show ?thesis
  proof (cases r1)
    case (Inl e)
    have "insert_and_recall_id (Tuple1 (get_units sensor)) UnitsTable d1 db1 = (Inl e, d1, db1)"
      using i1[of db1] Inl by simp
    then show ?thesis using s1 Inl by (simp add: register_sensor_ids_def)
  next
    case u: (Inr units_id)
    obtain r2 d2 db2 where s2: "insert_and_recall_id (Tuple2 (get_type sensor) units_id) TypeTable
             (self_types self) db1 = (r2, d2, db2)"
      by (metis prod_cases3)
    note i2 = iar_idem[OF s2]
    have f2: "rows_of UnitsTable db2 = rows_of UnitsTable db1"
      using iar_frame(1)[OF s2, of UnitsTable] by simp
    show ?thesis
    proof (cases r2)
      case (Inl e)
      have "insert_and_recall_id (Tuple1 (get_units sensor)) UnitsTable d1 db2 = (Inr units_id, d1, db2)"
        using i1[of db2] f2 u by simp
      moreover have "insert_and_recall_id (Tuple2 (get_type sensor) units_id) TypeTable d2 db2 = (Inl e, d2, db2)"
        using i2[of db2] Inl by simp
      ultimately show ?thesis using s1 u s2 Inl by (simp add: register_sensor_ids_def)
    next
      case ty: (Inr type_id)
      obtain r3 d3 db3 where s3: "insert_and_recall_id (Tuple2 (get_name sensor) type_id) SensorTable
             (self_sensors self) db2 = (r3, d3, db3)"
        by (metis prod_cases3)
      note i3 = iar_idem[OF s3]
      have f3: "rows_of UnitsTable db3 = rows_of UnitsTable db1" "rows_of TypeTable db3 = rows_of TypeTable db2"
        using iar_frame(1)[OF s3, of UnitsTable] iar_frame(1)[OF s3, of TypeTable] f2 by simp_all
      have a1: "insert_and_recall_id (Tuple1 (get_units sensor)) UnitsTable d1 db3 = (Inr units_id, d1, db3)"
        using i1[of db3] f3 u by simp
      have a2: "insert_and_recall_id (Tuple2 (get_type sensor) units_id) TypeTable d2 db3 = (Inr type_id, d2, db3)"
        using i2[of db3] f3 ty by simp
      have a3: "insert_and_recall_id (Tuple2 (get_name sensor) type_id) SensorTable d3 db3 = (r3, d3, db3)"
        using i3[of db3] by simp
      show ?thesis using s1 u s2 ty s3 a1 a2 a3 by (cases r3) (simp_all add: register_sensor_ids_def)
    qed
  qed
qed

lemma iar_new:
  assumes "\<not> bad_shape t items" and "item0 items = Some n"
    and "n \<notin> set (map row_name (rows_of t db))" and "\<not> (t = SensorTable \<and> item1 items = None)"
  shows "insert_and_recall_id items t d db =
    (Inr (new_rowid (rows_of t db)),
     (if map_of d (Some n) = None then d @ [(Some n, new_rowid (rows_of t db))] else d),
     set_rows t (rows_of t db @
       [\<lparr>row_id = new_rowid (rows_of t db), row_name = n, row_ref = item1 items\<rparr>]) db)"
proof -
  let ?r = "\<lparr>row_id = new_rowid (rows_of t db), row_name = n, row_ref = item1 items\<rparr>"
  let ?db = "set_rows t (rows_of t db @ [?r]) db"
  have ns: "\<not> skipped t items (rows_of t db)" using assms by (simp add: skipped_def)
  have i: "insert_or_ignore t items db = Inr ?db"
    using ioi_new[OF assms(1) ns] assms(2) by simp
  have "select_id t (Some n) ?db = [new_rowid (rows_of t db)]"
    using assms(3) by (simp add: select_id_def rows_of_set_rows filter_name_absent)
  then show ?thesis using i assms(2) by (simp add: insert_and_recall_id_def fetchone_def)
qed

lemma fetchone_append: "fetchone xs = Some i \<Longrightarrow> fetchone (xs @ ys) = Some i"
  by (cases xs) (simp_all add: fetchone_def)

lemma select_id_append:
  "select_id t k (set_rows t (rows_of t db @ rs) db) =
   select_id t k db @ select_id t k (set_rows t rs db)"
  by (simp add: select_id_def rows_of_set_rows split: option.splits)

lemma ioi_select_kept:
  assumes "insert_or_ignore t items db = Inr db1" and "fetchone (select_id t k db) = Some i"
  shows "fetchone (select_id t k db1) = Some i"
proof -
  have nb: "\<not> bad_shape t items" using assms(1) by (rule ioi_not_bad)
  show ?thesis
  proof (cases "skipped t items (rows_of t db)")
    case True
    have "insert_or_ignore t items db = Inr db" using nb True by (rule ioi_skip)
    with assms(1) have "db1 = db" by simp
    with assms(2) show ?thesis by simp
  next
    case False
    let ?r = "\<lparr>row_id = new_rowid (rows_of t db), row_name = the (item0 items), row_ref = item1 items\<rparr>"
    have "insert_or_ignore t items db = Inr (set_rows t (rows_of t db @ [?r]) db)"
      using nb False by (rule ioi_new)
    with assms(1) have "db1 = set_rows t (rows_of t db @ [?r]) db" by simp
    then have "select_id t k db1 = select_id t k db @ select_id t k (set_rows t [?r] db)"
      by (simp only: select_id_append)
    then show ?thesis using fetchone_append[OF assms(2)] by simp
  qed
qed

lemma iar_select_kept:
  assumes "insert_and_recall_id items t d db = (r, d', db')" and "fetchone (select_id t' k db) = Some i"
  shows "fetchone (select_id t' k db') = Some i"
proof (cases "t' = t")
  case True
  have "db' = db \<or> insert_or_ignore t items db = Inr db'"
    using assms(1) by (cases r) (auto dest: iar_Inl(2) iar_Inr(1))
  then show ?thesis
  proof
    assume "db' = db"
    then show ?thesis using assms(2) by simp
  next
    assume "insert_or_ignore t items db = Inr db'"
    then show ?thesis using assms(2) unfolding True by (rule ioi_select_kept)
  qed
next
  case False
  then have "rows_of t' db' = rows_of t' db" using iar_frame(1)[OF assms(1)] by simp
  then have "select_id t' k db' = select_id t' k db" by (rule select_id_cong)
  then show ?thesis using assms(2) by simp
qed

lemma dict_agrees_iff:
  "dict_agrees t d db \<longleftrightarrow> (\<forall>(k, i) \<in> set d. fetchone (select_id t k db) = Some i)"
  by (simp add: dict_agrees_def list_all_iff)

lemma iar_dict_other:
  assumes "insert_and_recall_id items t d db = (r, d', db')" and "dict_agrees t' e db"
  shows "dict_agrees t' e db'"
  using assms(2) iar_select_kept[OF assms(1)] by (auto simp: dict_agrees_iff)

lemma iar_dict_own:
  assumes "insert_and_recall_id items t d db = (r, d', db')" and "dict_agrees t d db"
  shows "dict_agrees t d' db'"
proof (cases r)
  case (Inl e)
  then have "d' = d" using assms(1) iar_Inl(1) by blast
  then show ?thesis using iar_dict_other[OF assms] by simp
next
  case (Inr i)
  note f = iar_Inr[OF assms(1)[unfolded Inr]]
  have "dict_agrees t d db'" by (rule iar_dict_other[OF assms])
  then show ?thesis using f(2) by (subst f(3)) (auto simp: dict_agrees_iff)
qed

lemma iar_cached:
  assumes "insert_and_recall_id items t d db = (Inr i, d', db')" and "dict_agrees t d db"
  shows "map_of d' (item0 items) = Some i"
proof (cases "map_of d (item0 items)")
  case None
  then show ?thesis using iar_Inr(3)[OF assms(1)] by (simp add: map_add_def)
next
  case (Some j)
  then have "(item0 items, j) \<in> set d" by (rule map_of_SomeD)
  then have "fetchone (select_id t (item0 items) db) = Some j"
    using assms(2) by (auto simp: dict_agrees_iff)
  then have "fetchone (select_id t (item0 items) db') = Some j"
    by (rule iar_select_kept[OF assms(1)])
  then have "j = i" using iar_Inr(2)[OF assms(1)] by simp
  then show ?thesis using Some iar_Inr(3)[OF assms(1)] by simp
qed

lemma reg_cases:
  obtains
    (fail1) e d1 db1 where
      "insert_and_recall_id (Tuple1 (get_units sensor)) UnitsTable (self_units self)
         (self_connection self) = (Inl e, d1, db1)"
      "register_sensor_ids self sensor = (Inl e, self\<lparr>self_connection := db1, self_units := d1\<rparr>)"
  | (fail2) units_id d1 db1 e d2 db2 where
      "insert_and_recall_id (Tuple1 (get_units sensor)) UnitsTable (self_units self)
         (self_connection self) = (Inr units_id, d1, db1)"
      "insert_and_recall_id (Tuple2 (get_type sensor) units_id) TypeTable (self_types self) db1
         = (Inl e, d2, db2)"
      "register_sensor_ids self sensor =
         (Inl e, self\<lparr>self_connection := db2, self_units := d1, self_types := d2\<rparr>)"
  | (fail3) units_id d1 db1 type_id d2 db2 e d3 db3 where
      "insert_and_recall_id (Tuple1 (get_units sensor)) UnitsTable (self_units self)
         (self_connection self) = (Inr units_id, d1, db1)"
      "insert_and_recall_id (Tuple2 (get_type sensor) units_id) TypeTable (self_types self) db1
         = (Inr type_id, d2, db2)"
      "insert_and_recall_id (Tuple2 (get_name sensor) type_id) SensorTable (self_sensors self) db2
         = (Inl e, d3, db3)"
      "register_sensor_ids self sensor =
         (Inl e, self\<lparr>self_connection := db3, self_units := d1, self_types := d2,
            self_sensors := d3\<rparr>)"
  | (ok) units_id d1 db1 type_id d2 db2 sensor_id d3 db3 where
      "insert_and_recall_id (Tuple1 (get_units sensor)) UnitsTable (self_units self)
         (self_connection self) = (Inr units_id, d1, db1)"
      "insert_and_recall_id (Tuple2 (get_type sensor) units_id) TypeTable (self_types self) db1
         = (Inr type_id, d2, db2)"
      "insert_and_recall_id (Tuple2 (get_name sensor) type_id) SensorTable (self_sensors self) db2
         = (Inr sensor_id, d3, db3)"
      "register_sensor_ids self sensor =
         (Inr (units_id, type_id, sensor_id),
          self\<lparr>self_connection := db3, self_units := d1, self_types := d2,
            self_sensors := d3\<rparr>)"
proof -
  obtain r1 d1 db1 where s1: "insert_and_recall_id (Tuple1 (get_units sensor)) UnitsTable
             (self_units self) (self_connection self) = (r1, d1, db1)"
    by (metis prod_cases3)
  show ?thesis
  proof (cases r1)
    case (Inl e)
    show ?thesis by (rule fail1[of e d1 db1]) (simp_all add: s1 Inl register_sensor_ids_def)
  next
    case u: (Inr units_id)
    obtain r2 d2 db2 where s2: "insert_and_recall_id (Tuple2 (get_type sensor) units_id) TypeTable
             (self_types self) db1 = (r2, d2, db2)"
      by (metis prod_cases3)
    show ?thesis
    proof (cases r2)
      case (Inl e)
      show ?thesis
        by (rule fail2[of units_id d1 db1 e d2 db2]) (simp_all add: s1 u s2 Inl register_sensor_ids_def)
    next
      case ty: (Inr type_id)
      obtain r3 d3 db3 where s3: "insert_and_recall_id (Tuple2 (get_name sensor) type_id) SensorTable
             (self_sensors self) db2 = (r3, d3, db3)"
        by (metis prod_cases3)
      show ?thesis
      proof (cases r3)
        case (Inl e)
        show ?thesis
          by (rule fail3[of units_id d1 db1 type_id d2 db2 e d3 db3])
             (simp_all add: s1 u s2 ty s3 Inl register_sensor_ids_def)
      next
        case (Inr sensor_id)
        show ?thesis
          by (rule ok[of units_id d1 db1 type_id d2 db2 sensor_id d3 db3])
             (simp_all add: s1 u s2 ty s3 Inr register_sensor_ids_def)
      qed
    qed
  qed
qed

lemma register_coherent:
  assumes "coherent self"
  shows "coherent (snd (register_sensor_ids self sensor))"
proof -
  from assms have c: "dict_agrees UnitsTable (self_units self) (self_connection self)"
    "dict_agrees TypeTable (self_types self) (self_connection self)"
    "dict_agrees SensorTable (self_sensors self) (self_connection self)"
    by (simp_all add: coherent_def)
  show ?thesis
  proof (cases rule: reg_cases[where self=self and sensor=sensor])
    case (fail1 e d1 db1)
    show ?thesis
      using iar_dict_own[OF fail1(1) c(1)] iar_dict_other[OF fail1(1) c(2)]
        iar_dict_other[OF fail1(1) c(3)]
      by (simp add: fail1(2) coherent_def)
  next
    case (fail2 units_id d1 db1 e d2 db2)
    show ?thesis
      using iar_dict_other[OF fail2(2) iar_dict_own[OF fail2(1) c(1)]]
        iar_dict_own[OF fail2(2) iar_dict_other[OF fail2(1) c(2)]]
        iar_dict_other[OF fail2(2) iar_dict_other[OF fail2(1) c(3)]]
      by (simp add: fail2(3) coherent_def)
  next
    case (fail3 units_id d1 db1 type_id d2 db2 e d3 db3)
    show ?thesis
      using iar_dict_other[OF fail3(3) iar_dict_other[OF fail3(2) iar_dict_own[OF fail3(1) c(1)]]]
        iar_dict_other[OF fail3(3) iar_dict_own[OF fail3(2) iar_dict_other[OF fail3(1) c(2)]]]
        iar_dict_own[OF fail3(3) iar_dict_other[OF fail3(2) iar_dict_other[OF fail3(1) c(3)]]]
      by (simp add: fail3(4) coherent_def)
  next
    case (ok units_id d1 db1 type_id d2 db2 sensor_id d3 db3)
    show ?thesis
      using iar_dict_other[OF ok(3) iar_dict_other[OF ok(2) iar_dict_own[OF ok(1) c(1)]]]
        iar_dict_other[OF ok(3) iar_dict_own[OF ok(2) iar_dict_other[OF ok(1) c(2)]]]
        iar_dict_own[OF ok(3) iar_dict_other[OF ok(2) iar_dict_other[OF ok(1) c(3)]]]
      by (simp add: ok(4) coherent_def)
  qed
qed

lemma register_sensor_snd: "snd (register_sensor self sensor) = snd (register_sensor_ids self sensor)"
  by (cases "register_sensor_ids self sensor"; cases "fst (register_sensor_ids self sensor)")
     (auto simp: register_sensor_def)

lemma store_cases:
  "store_measurement self meas = (Inl KeyError, self) \<or>
   store_measurement self meas = (Inl IntegrityError, self) \<or>
   (\<exists>name_id t x. map_of (self_sensors self) (get_id meas) = Some name_id \<and>
      get_timestamp meas = Some t \<and> get_data meas = Some x \<and>
      store_measurement self meas = (Inr (),
        self\<lparr>self_connection := (self_connection self)\<lparr>tbl_measurement :=
          tbl_measurement (self_connection self) @
            [\<lparr>m_timestamp = t, m_sensor = name_id, m_value = x\<rparr>]\<rparr>\<rparr>))"
  by (auto simp: store_measurement_def insert_measurement_def split: option.splits)

lemma rows_of_measurement: "rows_of t (db\<lparr>tbl_measurement := ms\<rparr>) = rows_of t db"
  by (cases t) simp_all

lemma dict_agrees_measurement:
  "dict_agrees t d (db\<lparr>tbl_measurement := ms\<rparr>) = dict_agrees t d db"
proof -
  have "select_id t k (db\<lparr>tbl_measurement := ms\<rparr>) = select_id t k db" for k
    by (rule select_id_cong) (rule rows_of_measurement)
  then show ?thesis by (simp add: dict_agrees_def)
qed

lemma store_coherent:
  assumes "coherent self"
  shows "coherent (snd (store_measurement self meas))"
  using store_cases[of self meas] assms
  by (auto simp: coherent_def dict_agrees_measurement)

lemma step_coherent: "coherent self \<Longrightarrow> coherent (step self op)"
  by (cases op) (simp_all add: register_sensor_snd register_coherent store_coherent)

lemma run_coherent: "coherent self \<Longrightarrow> coherent (run ops self)"
  unfolding run_def by (induction ops arbitrary: self) (simp_all add: step_coherent)

section \<open>Repeated registration\<close>

text \<open>
  Claim C1. Registering the same sensor description a second time changes nothing: from
  the connector that the first call leaves, whatever the description, the database and
  the dictionaries before it, the second call resolves the same three ids (or raises the
  same exception) and leaves the connector, with every row of every table, exactly as the
  first call left it. This holds for the resolved ids and for \<^verbatim>\<open>register_sensor\<close>
  as the caller sees it.
\<close>

theorem register_sensor_idempotent:
  "register_sensor_ids (snd (register_sensor_ids self sensor)) sensor =
     register_sensor_ids self sensor \<and>
   register_sensor (snd (register_sensor self sensor)) sensor = register_sensor self sensor"
proof -
  have ids: "register_sensor_ids (snd (register_sensor_ids self sensor)) sensor =
     register_sensor_ids self sensor"
    by (rule register_sensor_ids_idem)
  obtain r self' where rs: "register_sensor_ids self sensor = (r, self')"
    by (cases "register_sensor_ids self sensor")
  with ids have "register_sensor_ids self' sensor = (r, self')" by simp
  with rs have "register_sensor (snd (register_sensor self sensor)) sensor =
     register_sensor self sensor"
    by (cases r) (simp_all add: register_sensor_def)
  with ids show ?thesis by simp
qed

section \<open>The chain of a new sensor\<close>

text \<open>
  Claim C2. When the sensor description carries a units name, a type name and a sensor
  name of which none is in its table, \<^verbatim>\<open>register_sensor\<close> runs three steps in this
  order: the units step appends one row to \<^verbatim>\<open>units\<close> and nothing else; the type step,
  run on the database that holds this row, appends one row to \<^verbatim>\<open>type\<close> whose
  reference is the id of the new units row; the sensor step, run on the database that
  holds both, appends one row to \<^verbatim>\<open>sensor\<close> whose reference is the id of the new
  type row. The database that the call leaves is the one before it with exactly these
  three rows added, and the three ids are those of the rows.
\<close>

theorem register_sensor_chain:
  assumes "get_units sensor = Some un" and "get_type sensor = Some tn"
    and "get_name sensor = Some sn"
    and "un \<notin> set (map row_name (tbl_units (self_connection self)))"
    and "tn \<notin> set (map row_name (tbl_type (self_connection self)))"
    and "sn \<notin> set (map row_name (tbl_sensor (self_connection self)))"
  defines "db \<equiv> self_connection self"
  defines "units_id \<equiv> new_rowid (tbl_units db)"
    and "type_id \<equiv> new_rowid (tbl_type db)"
    and "sensor_id \<equiv> new_rowid (tbl_sensor db)"
  defines "db1 \<equiv> db\<lparr>tbl_units := tbl_units db @
      [\<lparr>row_id = units_id, row_name = un, row_ref = None\<rparr>]\<rparr>"
  defines "db2 \<equiv> db1\<lparr>tbl_type := tbl_type db @
      [\<lparr>row_id = type_id, row_name = tn, row_ref = Some units_id\<rparr>]\<rparr>"
  defines "db3 \<equiv> db2\<lparr>tbl_sensor := tbl_sensor db @
      [\<lparr>row_id = sensor_id, row_name = sn, row_ref = Some type_id\<rparr>]\<rparr>"
  shows "fst (insert_and_recall_id (Tuple1 (get_units sensor)) UnitsTable (self_units self) db)
           = Inr units_id \<and>
    snd (snd (insert_and_recall_id (Tuple1 (get_units sensor)) UnitsTable
           (self_units self) db)) = db1 \<and>
    fst (insert_and_recall_id (Tuple2 (get_type sensor) units_id) TypeTable
           (self_types self) db1) = Inr type_id \<and>
    snd (snd (insert_and_recall_id (Tuple2 (get_type sensor) units_id) TypeTable
           (self_types self) db1)) = db2 \<and>
    fst (insert_and_recall_id (Tuple2 (get_name sensor) type_id) SensorTable
           (self_sensors self) db2) = Inr sensor_id \<and>
    snd (snd (insert_and_recall_id (Tuple2 (get_name sensor) type_id) SensorTable
           (self_sensors self) db2)) = db3 \<and>
    fst (register_sensor_ids self sensor) = Inr (units_id, type_id, sensor_id) \<and>
    self_connection (snd (register_sensor_ids self sensor)) = db3"
proof -
  have s1: "insert_and_recall_id (Tuple1 (get_units sensor)) UnitsTable (self_units self) db =
      (Inr units_id,
       (if map_of (self_units self) (Some un) = None
        then self_units self @ [(Some un, units_id)] else self_units self), db1)"
    using iar_new[of UnitsTable "Tuple1 (Some un)" un db "self_units self"] assms(1,4)
    by (simp add: bad_shape_def db_def units_id_def db1_def)
  have s2: "insert_and_recall_id (Tuple2 (get_type sensor) units_id) TypeTable (self_types self) db1 =
      (Inr type_id,
       (if map_of (self_types self) (Some tn) = None
        then self_types self @ [(Some tn, type_id)] else self_types self), db2)"
    using iar_new[of TypeTable "Tuple2 (Some tn) units_id" tn db1 "self_types self"] assms(2,5)
    by (simp add: bad_shape_def db_def type_id_def db1_def db2_def)
  have s3: "insert_and_recall_id (Tuple2 (get_name sensor) type_id) SensorTable (self_sensors self) db2 =
      (Inr sensor_id,
       (if map_of (self_sensors self) (Some sn) = None
        then self_sensors self @ [(Some sn, sensor_id)] else self_sensors self), db3)"
    using iar_new[of SensorTable "Tuple2 (Some sn) type_id" sn db2 "self_sensors self"] assms(3,6)
    by (simp add: bad_shape_def db_def sensor_id_def db1_def db2_def db3_def)
  have "register_sensor_ids self sensor = (Inr (units_id, type_id, sensor_id),
      self\<lparr>self_connection := db3,
        self_units := (if map_of (self_units self) (Some un) = None
           then self_units self @ [(Some un, units_id)] else self_units self),
        self_types := (if map_of (self_types self) (Some tn) = None
           then self_types self @ [(Some tn, type_id)] else self_types self),
        self_sensors := (if map_of (self_sensors self) (Some sn) = None
           then self_sensors self @ [(Some sn, sensor_id)] else self_sensors self)\<rparr>)"
    using s1 s2 s3 unfolding register_sensor_ids_def db_def[symmetric] by simp
  then have "fst (register_sensor_ids self sensor) = Inr (units_id, type_id, sensor_id)"
    and "self_connection (snd (register_sensor_ids self sensor)) = db3"
    by simp_all
  then show ?thesis using s1 s2 s3 by simp
qed

theorem register_sensor_chain_witness:
  "get_units tempA = Some ''celsius'' \<and> get_type tempA = Some ''temperature'' \<and>
   get_name tempA = Some ''tempA'' \<and>
   ''celsius'' \<notin> set (map row_name (tbl_units (self_connection (fresh)))) \<and>
   ''temperature'' \<notin> set (map row_name (tbl_type (self_connection (fresh)))) \<and>
   ''tempA'' \<notin> set (map row_name (tbl_sensor (self_connection (fresh)))) \<and>
   fst (register_sensor_ids (fresh) tempA) = Inr (1, 1, 1) \<and>
   self_connection (snd (register_sensor_ids (fresh) tempA)) =
     \<lparr>tbl_units = [\<lparr>row_id = 1, row_name = ''celsius'', row_ref = None\<rparr>],
      tbl_type = [\<lparr>row_id = 1, row_name = ''temperature'', row_ref = Some 1\<rparr>],
      tbl_sensor = [\<lparr>row_id = 1, row_name = ''tempA'', row_ref = Some 1\<rparr>],
      tbl_measurement = []\<rparr>"
  using register_sensor_chain[of tempA "''celsius''" "''temperature''" "''tempA''"
      "fresh"]
  by (simp add: tempA_def no_rows_def fresh_def new_rowid_def)

lemma iar_units_celsius:
  "insert_and_recall_id (Tuple1 (Some ''celsius'')) UnitsTable [] no_rows =
   (Inr 1, [(Some ''celsius'', 1)],
    no_rows\<lparr>tbl_units := [\<lparr>row_id = 1, row_name = ''celsius'', row_ref = None\<rparr>]\<rparr>)"
  using iar_new[of UnitsTable "Tuple1 (Some ''celsius'')" "''celsius''" no_rows "[]"]
  by (simp add: bad_shape_def no_rows_def new_rowid_def)

lemma reg_fresh_tempA: "register_sensor_ids fresh tempA = (Inr (1, 1, 1), after_tempA)"
proof -
  let ?db1 = "no_rows\<lparr>tbl_units := [\<lparr>row_id = 1, row_name = ''celsius'', row_ref = None\<rparr>]\<rparr>"
  let ?db2 = "?db1\<lparr>tbl_type := [\<lparr>row_id = 1, row_name = ''temperature'', row_ref = Some 1\<rparr>]\<rparr>"
  have s2: "insert_and_recall_id (Tuple2 (Some ''temperature'') 1) TypeTable [] ?db1 =
    (Inr 1, [(Some ''temperature'', 1)], ?db2)"
    using iar_new[of TypeTable "Tuple2 (Some ''temperature'') 1" "''temperature''" ?db1 "[]"]
    by (simp add: bad_shape_def no_rows_def new_rowid_def)
  have s3: "insert_and_recall_id (Tuple2 (Some ''tempA'') 1) SensorTable [] ?db2 =
    (Inr 1, [(Some ''tempA'', 1)],
     ?db2\<lparr>tbl_sensor := [\<lparr>row_id = 1, row_name = ''tempA'', row_ref = Some 1\<rparr>]\<rparr>)"
    using iar_new[of SensorTable "Tuple2 (Some ''tempA'') 1" "''tempA''" ?db2 "[]"]
    by (simp add: bad_shape_def no_rows_def new_rowid_def)
  show ?thesis
    using iar_units_celsius s2 s3
    by (simp add: register_sensor_ids_def fresh_def tempA_def after_tempA_def no_rows_def)
qed

lemma reg_again_tempA: "register_sensor_ids after_tempA tempA = (Inr (1, 1, 1), after_tempA)"
  using register_sensor_ids_idem[of fresh tempA] by (simp add: reg_fresh_tempA)

lemma run_reg_tempA: "run [Register tempA] fresh = after_tempA"
  by (simp add: run_def register_sensor_snd reg_fresh_tempA)

lemma store_10h: "store_measurement after_tempA (meas_10h 21.5) = (Inr (), after_10h)"
  by (simp add: store_measurement_def insert_measurement_def after_tempA_def meas_10h_def after_10h_def)

section \<open>The dictionaries and the tables\<close>

lemma empty_dicts_coherent:
  "coherent \<lparr>self_connection = db, self_units = [], self_types = [], self_sensors = []\<rparr>"
  by (simp add: coherent_def dict_agrees_def)

lemma iar_select_result:
  assumes "insert_and_recall_id items t d db = (Inr i, d', db')"
    and "rows_of t db2 = rows_of t db'"
  shows "fetchone (select_id t (item0 items) db2) = Some i"
proof -
  have "select_id t (item0 items) db2 = select_id t (item0 items) db'"
    using assms(2) by (rule select_id_cong)
  then show ?thesis using iar_Inr(2)[OF assms(1)] by simp
qed

lemma register_cached:
  assumes "coherent self" and "register_sensor_ids self sensor = (Inr ids, self')"
  shows "map_of (self_units self') (get_units sensor) = Some (fst ids) \<and>
    fetchone (select_id UnitsTable (get_units sensor) (self_connection self')) = Some (fst ids) \<and>
    map_of (self_types self') (get_type sensor) = Some (fst (snd ids)) \<and>
    fetchone (select_id TypeTable (get_type sensor) (self_connection self')) = Some (fst (snd ids)) \<and>
    map_of (self_sensors self') (get_name sensor) = Some (snd (snd ids)) \<and>
    fetchone (select_id SensorTable (get_name sensor) (self_connection self')) = Some (snd (snd ids))"
proof -
  from assms(1) have c: "dict_agrees UnitsTable (self_units self) (self_connection self)"
    "dict_agrees TypeTable (self_types self) (self_connection self)"
    "dict_agrees SensorTable (self_sensors self) (self_connection self)"
    by (simp_all add: coherent_def)
  show ?thesis
  proof (cases rule: reg_cases[where self=self and sensor=sensor])
    case (fail1 e d1 db1)
    with assms(2) show ?thesis by simp
  next
    case (fail2 units_id d1 db1 e d2 db2)
    with assms(2) show ?thesis by simp
  next
    case (fail3 units_id d1 db1 type_id d2 db2 e d3 db3)
    with assms(2) show ?thesis by simp
  next
    case (ok units_id d1 db1 type_id d2 db2 sensor_id d3 db3)
    from ok(4) assms(2) have ids: "ids = (units_id, type_id, sensor_id)"
      and self': "self' = self\<lparr>self_connection := db3, self_units := d1, self_types := d2,
            self_sensors := d3\<rparr>"
      by simp_all
    have f2: "rows_of UnitsTable db2 = rows_of UnitsTable db1"
      using iar_frame(1)[OF ok(2), of UnitsTable] by simp
    have f3: "rows_of UnitsTable db3 = rows_of UnitsTable db1"
      "rows_of TypeTable db3 = rows_of TypeTable db2"
      using iar_frame(1)[OF ok(3), of UnitsTable] iar_frame(1)[OF ok(3), of TypeTable] f2
      by simp_all
    have a1: "map_of d1 (get_units sensor) = Some units_id"
      using iar_cached[OF ok(1) c(1)] by simp
    have a2: "map_of d2 (get_type sensor) = Some type_id"
      using iar_cached[OF ok(2) iar_dict_other[OF ok(1) c(2)]] by simp
    have a3: "map_of d3 (get_name sensor) = Some sensor_id"
      using iar_cached[OF ok(3) iar_dict_other[OF ok(2) iar_dict_other[OF ok(1) c(3)]]] by simp
    have b1: "fetchone (select_id UnitsTable (get_units sensor) db3) = Some units_id"
      using iar_select_result[OF ok(1) f3(1)] by simp
    have b2: "fetchone (select_id TypeTable (get_type sensor) db3) = Some type_id"
      using iar_select_result[OF ok(2) f3(2)] by simp
    have b3: "fetchone (select_id SensorTable (get_name sensor) db3) = Some sensor_id"
      using iar_select_result[OF ok(3), of db3] by simp
    show ?thesis using a1 a2 a3 b1 b2 b3 by (simp add: ids self')
  qed
qed

text \<open>
  Claim C3. The three dictionaries of a connector agree with its tables: every entry of
  a dictionary maps its name to the id that the table of its level stores under that
  name. A connector with agreeing dictionaries keeps them agreeing through every sequence
  of \<^verbatim>\<open>register_sensor\<close> and \<^verbatim>\<open>store_measurement\<close> calls, whether a call
  returns or raises; when \<^verbatim>\<open>register_sensor\<close> returns, each of the three
  dictionaries has an entry for the name of its level, and the entry is the id resolved
  by the call and the id stored under the name in the table. Empty dictionaries, with
  which both constructors start, agree with every database.
\<close>

theorem cache_coherence:
  assumes "coherent self"
  shows "coherent (run ops self) \<and>
    coherent (snd (register_sensor_ids self sensor)) \<and>
    (\<forall>ids self'. register_sensor_ids self sensor = (Inr ids, self') \<longrightarrow>
       map_of (self_units self') (get_units sensor) = Some (fst ids) \<and>
       fetchone (select_id UnitsTable (get_units sensor) (self_connection self')) = Some (fst ids) \<and>
       map_of (self_types self') (get_type sensor) = Some (fst (snd ids)) \<and>
       fetchone (select_id TypeTable (get_type sensor) (self_connection self')) =
         Some (fst (snd ids)) \<and>
       map_of (self_sensors self') (get_name sensor) = Some (snd (snd ids)) \<and>
       fetchone (select_id SensorTable (get_name sensor) (self_connection self')) =
         Some (snd (snd ids))) \<and>
    coherent \<lparr>self_connection = db, self_units = [], self_types = [], self_sensors = []\<rparr>"
  using run_coherent[OF assms] register_coherent[OF assms] register_cached[OF assms]
    empty_dicts_coherent
  by blast

theorem cache_coherence_witness:
  "coherent fresh \<and>
   coherent (run [Register tempA, Store (meas_10h 21.5), Register tempA] fresh) \<and>
   register_sensor_ids fresh tempA = (Inr (1, 1, 1), after_tempA) \<and>
   map_of (self_sensors after_tempA) (get_name tempA) = Some 1 \<and>
   fetchone (select_id SensorTable (get_name tempA) (self_connection after_tempA)) = Some 1"
proof -
  have c: "coherent fresh" by (simp add: fresh_def empty_dicts_coherent)
  note t = cache_coherence[OF c,
      of "[Register tempA, Store (meas_10h 21.5), Register tempA]" tempA no_rows]
  from t have "coherent (run [Register tempA, Store (meas_10h 21.5), Register tempA] fresh)"
    by blast
  moreover from t reg_fresh_tempA have
    "map_of (self_sensors after_tempA) (get_name tempA) = Some 1 \<and>
     fetchone (select_id SensorTable (get_name tempA) (self_connection after_tempA)) = Some 1"
    by auto
  ultimately show ?thesis using c reg_fresh_tempA by simp
qed

section \<open>Storing measurements\<close>

lemma iar_dict_absent:
  assumes "insert_and_recall_id items t d db = (r, d', db')"
    and "map_of d n = None" and "item0 items \<noteq> n"
  shows "map_of d' n = None"
proof (cases r)
  case (Inl e)
  then have "d' = d" using assms(1) iar_Inl(1) by blast
  with assms(2) show ?thesis by simp
next
  case (Inr i)
  have "d' = (if map_of d (item0 items) = None then d @ [(item0 items, i)] else d)"
    using assms(1) unfolding Inr by (rule iar_Inr(3))
  with assms(2,3) show ?thesis by (auto simp: map_add_def)
qed

lemma register_sensors_dict:
  "(\<exists>type_id r db2 db3.
      insert_and_recall_id (Tuple2 (get_name sensor) type_id) SensorTable (self_sensors self) db2 =
        (r, self_sensors (snd (register_sensor_ids self sensor)), db3)) \<or>
    self_sensors (snd (register_sensor_ids self sensor)) = self_sensors self"
proof (cases rule: reg_cases[where self=self and sensor=sensor])
  case (fail1 e d1 db1)
  then show ?thesis by simp
next
  case (fail2 units_id d1 db1 e d2 db2)
  then show ?thesis by simp
next
  case (fail3 units_id d1 db1 type_id d2 db2 e d3 db3)
  have "d3 = self_sensors self" using fail3(3) by (rule iar_Inl(1))
  then show ?thesis using fail3(4) by simp
next
  case (ok units_id d1 db1 type_id d2 db2 sensor_id d3 db3)
  have "insert_and_recall_id (Tuple2 (get_name sensor) type_id) SensorTable (self_sensors self) db2 =
      (Inr sensor_id, self_sensors (snd (register_sensor_ids self sensor)), db3)"
    using ok(3,4) by simp
  then show ?thesis by blast
qed

lemma register_absent:
  assumes "map_of (self_sensors self) n = None" and "get_name sensor \<noteq> n"
  shows "map_of (self_sensors (snd (register_sensor_ids self sensor))) n = None"
  using register_sensors_dict[of sensor self]
proof
  assume "\<exists>type_id r db2 db3.
      insert_and_recall_id (Tuple2 (get_name sensor) type_id) SensorTable (self_sensors self) db2 =
        (r, self_sensors (snd (register_sensor_ids self sensor)), db3)"
  then obtain type_id r db2 db3 where
    a: "insert_and_recall_id (Tuple2 (get_name sensor) type_id) SensorTable (self_sensors self) db2 =
        (r, self_sensors (snd (register_sensor_ids self sensor)), db3)"
    by blast
  show ?thesis using iar_dict_absent[OF a assms(1)] assms(2) by simp
next
  assume "self_sensors (snd (register_sensor_ids self sensor)) = self_sensors self"
  with assms(1) show ?thesis by simp
qed

lemma store_sensors_dict: "self_sensors (snd (store_measurement self meas)) = self_sensors self"
  using store_cases[of self meas] by auto

lemma step_absent:
  "map_of (self_sensors self) n = None \<Longrightarrow> \<not> registers n op \<Longrightarrow>
   map_of (self_sensors (step self op)) n = None"
  by (cases op) (simp_all add: register_sensor_snd register_absent store_sensors_dict)

lemma run_absent:
  "map_of (self_sensors self) n = None \<Longrightarrow> \<not> list_ex (registers n) ops \<Longrightarrow>
   map_of (self_sensors (run ops self)) n = None"
  unfolding run_def by (induction ops arbitrary: self) (simp_all add: step_absent)

text \<open>
  Claim C4. A sensor name that is not a key of \<^verbatim>\<open>self._sensors\<close> at the start and
  is the name of no sensor registered since is still no key after any sequence of
  operations; \<^verbatim>\<open>store_measurement\<close> for it then raises \<^verbatim>\<open>KeyError\<close> (the
  spec's UnregisteredSensorError) on both connectors, registers nothing and leaves the
  connector and every table as they were.
\<close>

theorem unregistered_sensor_guard:
  assumes "map_of (self_sensors self) (get_id meas) = None"
    and "\<not> list_ex (registers (get_id meas)) ops"
  shows "store_measurement (run ops self) meas = (Inl KeyError, run ops self) \<and>
    pg_store_measurement (run ops self) meas = Inl KeyError"
  using run_absent[OF assms]
  by (simp add: store_measurement_def pg_store_measurement_def)

theorem unregistered_sensor_guard_witness:
  "map_of (self_sensors fresh) (get_id meas_tempB) = None \<and>
   \<not> list_ex (registers (get_id meas_tempB)) [Register tempA] \<and>
   run [Register tempA] fresh = after_tempA \<and>
   store_measurement after_tempA meas_tempB = (Inl KeyError, after_tempA) \<and>
   tbl_measurement (self_connection after_tempA) = []"
proof -
  have h1: "map_of (self_sensors fresh) (get_id meas_tempB) = None"
    by (simp add: fresh_def)
  have h2: "\<not> list_ex (registers (get_id meas_tempB)) [Register tempA]"
    by (simp add: meas_tempB_def tempA_def)
  have "store_measurement after_tempA meas_tempB = (Inl KeyError, after_tempA)"
    using unregistered_sensor_guard[OF h1 h2] by (simp add: run_reg_tempA)
  then show ?thesis using h1 h2 by (simp add: run_reg_tempA) (simp add: after_tempA_def)
qed

text \<open>
  Claim C5. When the measurement table already holds a row for a timestamp and the id
  cached for a sensor name, \<^verbatim>\<open>store_measurement\<close> for this timestamp and name
  raises \<^verbatim>\<open>IntegrityError\<close> (the spec's DuplicateMeasurementError) whatever the
  value, and leaves the connector and the stored row unchanged. In particular, after a
  call that stored a measurement, a second call with the same timestamp and name and any
  value is rejected and the first value stays.
\<close>

theorem duplicate_measurement_rejected:
  "(\<forall>name_id t.
      map_of (self_sensors self) (get_id meas) = Some name_id \<and>
      get_timestamp meas = Some t \<and>
      (t, name_id) \<in> set (map (\<lambda>m. (m_timestamp m, m_sensor m))
         (tbl_measurement (self_connection self))) \<longrightarrow>
      store_measurement self meas = (Inl IntegrityError, self)) \<and>
   (\<forall>self1 (meas2::measurement).
      store_measurement self meas = (Inr (), self1) \<and>
      get_timestamp meas2 = get_timestamp meas \<and> get_id meas2 = get_id meas \<longrightarrow>
      store_measurement self1 meas2 = (Inl IntegrityError, self1))"
proof (intro conjI allI impI)
  fix name_id t
  assume "map_of (self_sensors self) (get_id meas) = Some name_id \<and>
      get_timestamp meas = Some t \<and>
      (t, name_id) \<in> set (map (\<lambda>m. (m_timestamp m, m_sensor m))
         (tbl_measurement (self_connection self)))"
  then show "store_measurement self meas = (Inl IntegrityError, self)"
    by (simp add: store_measurement_def insert_measurement_def split: option.splits)
next
  fix self1 and meas2 :: measurement
  assume a: "store_measurement self meas = (Inr (), self1) \<and>
      get_timestamp meas2 = get_timestamp meas \<and> get_id meas2 = get_id meas"
  from store_cases[of self meas] a obtain name_id t x where
    k: "map_of (self_sensors self) (get_id meas) = Some name_id"
      "get_timestamp meas = Some t"
    and s: "self1 = self\<lparr>self_connection := (self_connection self)\<lparr>tbl_measurement :=
          tbl_measurement (self_connection self) @
            [\<lparr>m_timestamp = t, m_sensor = name_id, m_value = x\<rparr>]\<rparr>\<rparr>"
    by auto
  show "store_measurement self1 meas2 = (Inl IntegrityError, self1)"
    using a k unfolding s
    by (simp add: store_measurement_def insert_measurement_def split: option.splits)
qed

theorem duplicate_measurement_rejected_witness:
  "store_measurement after_tempA (meas_10h 21.5) = (Inr (), after_10h) \<and>
   get_timestamp (meas_10h 99.9) = get_timestamp (meas_10h 21.5) \<and>
   get_id (meas_10h 99.9) = get_id (meas_10h 21.5) \<and>
   store_measurement after_10h (meas_10h 99.9) = (Inl IntegrityError, after_10h) \<and>
   map m_value (tbl_measurement (self_connection after_10h)) = [21.5]"
  using duplicate_measurement_rejected[of after_tempA "meas_10h 21.5"] store_10h
  by (simp add: meas_10h_def after_10h_def)

section \<open>Names that are absent or already stored\<close>

lemma iar_null:
  assumes "\<not> bad_shape t items" and "item0 items = None"
  shows "insert_and_recall_id items t d db = (Inl TypeError, d, db)"
proof -
  have "skipped t items (rows_of t db)" using assms(2) by (simp add: skipped_def)
  then have "insert_or_ignore t items db = Inr db" using assms(1) by (simp add: ioi_skip)
  then show ?thesis using assms(2)
    by (simp add: insert_and_recall_id_def select_id_def fetchone_def)
qed

lemma select_present:
  assumes "n \<in> set (map row_name (rows_of t db))"
  shows "\<exists>i. fetchone (select_id t (Some n) db) = Some i"
proof -
  from assms obtain r where "r \<in> set (rows_of t db)" "row_name r = n" by auto
  then have "filter (\<lambda>r. row_name r = n) (rows_of t db) \<noteq> []"
    by (auto simp: filter_empty_conv)
  then show ?thesis
    by (cases "filter (\<lambda>r. row_name r = n) (rows_of t db)")
       (simp_all add: select_id_def fetchone_def)
qed

lemma iar_present:
  assumes "\<not> bad_shape t items" and "item0 items = Some n"
    and "n \<in> set (map row_name (rows_of t db))"
  shows "\<exists>i. fetchone (select_id t (Some n) db) = Some i \<and>
    insert_and_recall_id items t d db =
      (Inr i, (if map_of d (Some n) = None then d @ [(Some n, i)] else d), db)"
proof -
  have "skipped t items (rows_of t db)" using assms(2,3) by (simp add: skipped_def)
  then have i: "insert_or_ignore t items db = Inr db" using assms(1) by (simp add: ioi_skip)
  from select_present[OF assms(3)] obtain i where
    s: "fetchone (select_id t (Some n) db) = Some i" by blast
  then show ?thesis using i assms(2) by (simp add: insert_and_recall_id_def)
qed

lemma iar_some:
  assumes "\<not> bad_shape t items" and "item0 items = Some n"
    and "\<not> (t = SensorTable \<and> item1 items = None)"
  shows "\<exists>i d' db'. insert_and_recall_id items t d db = (Inr i, d', db')"
proof (cases "n \<in> set (map row_name (rows_of t db))")
  case True
  from iar_present[OF assms(1,2) True, of d] show ?thesis by blast
next
  case False
  from iar_new[OF assms(1,2) False assms(3), of d] show ?thesis by blast
qed

lemma pg_ioi_Inr:
  assumes "pg_insert_on_conflict nextval t items c db = Inr db1"
  shows "\<exists>n. item0 items = Some n \<and> n \<in> set (map row_name (rows_of t db1))"
proof (cases "item0 items")
  case None
  with assms show ?thesis by (simp add: pg_insert_on_conflict_def split: if_splits)
next
  case (Some n)
  show ?thesis
  proof (cases "n \<in> set (map row_name (rows_of t db))")
    case True
    with assms Some have "db1 = db"
      by (simp add: pg_insert_on_conflict_def split: if_splits)
    with True Some show ?thesis by simp
  next
    case False
    with assms Some have "rows_of t db1 = rows_of t db @
        [\<lparr>row_id = nextval t, row_name = n, row_ref = item1 items\<rparr>]"
      by (auto simp add: pg_insert_on_conflict_def rows_of_set_rows split: if_splits)
    with Some show ?thesis by simp
  qed
qed

lemma pg_lookup_finds:
  assumes "pg_insert_on_conflict nextval t items c db = Inr db1"
  shows "select_id t (item0 items) db1 \<noteq> []"
proof -
  from pg_ioi_Inr[OF assms] obtain n where
    n: "item0 items = Some n" "n \<in> set (map row_name (rows_of t db1))" by blast
  from select_present[OF n(2)] obtain i where "fetchone (select_id t (Some n) db1) = Some i"
    by blast
  then show ?thesis using n(1) by (auto simp: fetchone_def)
qed

text \<open>
  Claim C6. In \<^verbatim>\<open>insert_and_recall_id\<close> the lookup follows the insert. On SQLite,
  when the insert has run and the lookup on the database it leaves finds no row, the
  function raises \<^verbatim>\<open>TypeError\<close> from \<^verbatim>\<open>fetchone()[0]\<close> (the spec's
  NotFoundError), with no retry, the dictionary untouched and the database as the insert
  left it; this is what happens for a name that is \<^verbatim>\<open>None\<close>, whose insert is
  skipped. The lookup lines of the PostgreSQL class are the same; there an insert that
  does not raise always leaves a row under the name, so the lookup finds it.
\<close>

theorem lookup_failure_raises:
  "(insert_or_ignore table items db = Inr db1 \<and> select_id table (item0 items) db1 = [] \<longrightarrow>
      insert_and_recall_id items table id_dict db = (Inl TypeError, id_dict, db1)) \<and>
   (item0 items = None \<and> \<not> (table = UnitsTable \<and> item1 items \<noteq> None) \<longrightarrow>
      insert_and_recall_id items table id_dict db = (Inl TypeError, id_dict, db)) \<and>
   (pg_insert_on_conflict nextval table items constraint_name db = Inr db1 \<longrightarrow>
      select_id table (item0 items) db1 \<noteq> [])"
proof (intro conjI impI)
  assume "insert_or_ignore table items db = Inr db1 \<and> select_id table (item0 items) db1 = []"
  then show "insert_and_recall_id items table id_dict db = (Inl TypeError, id_dict, db1)"
    by (simp add: insert_and_recall_id_def fetchone_def)
next
  assume "item0 items = None \<and> \<not> (table = UnitsTable \<and> item1 items \<noteq> None)"
  then show "insert_and_recall_id items table id_dict db = (Inl TypeError, id_dict, db)"
    using iar_null[of table items id_dict db] by (simp add: bad_shape_def)
next
  assume "pg_insert_on_conflict nextval table items constraint_name db = Inr db1"
  then show "select_id table (item0 items) db1 \<noteq> []" by (rule pg_lookup_finds)
qed

theorem lookup_failure_raises_witness:
  "insert_or_ignore UnitsTable (Tuple1 None) no_rows = Inr no_rows \<and>
   select_id UnitsTable (item0 (Tuple1 None)) no_rows = [] \<and>
   insert_and_recall_id (Tuple1 None) UnitsTable [] no_rows = (Inl TypeError, [], no_rows) \<and>
   pg_insert_on_conflict (\<lambda>t. 1) UnitsTable (Tuple1 (Some ''celsius'')) ''units_name_key'' no_rows
     = Inr (no_rows\<lparr>tbl_units := [\<lparr>row_id = 1, row_name = ''celsius'', row_ref = None\<rparr>]\<rparr>) \<and>
   select_id UnitsTable (item0 (Tuple1 (Some ''celsius'')))
     (no_rows\<lparr>tbl_units := [\<lparr>row_id = 1, row_name = ''celsius'', row_ref = None\<rparr>]\<rparr>) \<noteq> []"
proof -
  have a: "insert_or_ignore UnitsTable (Tuple1 None) no_rows = Inr no_rows"
    by (simp add: insert_or_ignore_def)
  have b: "select_id UnitsTable (item0 (Tuple1 None)) no_rows = []"
    by (simp add: select_id_def)
  have c: "pg_insert_on_conflict (\<lambda>t. 1) UnitsTable (Tuple1 (Some ''celsius''))
      ''units_name_key'' no_rows
     = Inr (no_rows\<lparr>tbl_units := [\<lparr>row_id = 1, row_name = ''celsius'', row_ref = None\<rparr>]\<rparr>)"
    by (simp add: pg_insert_on_conflict_def name_key_def no_rows_def)
  note t = lookup_failure_raises[of UnitsTable "Tuple1 None" no_rows no_rows "[]"]
  note u = lookup_failure_raises[of UnitsTable "Tuple1 (Some ''celsius'')" no_rows
      "no_rows\<lparr>tbl_units := [\<lparr>row_id = 1, row_name = ''celsius'', row_ref = None\<rparr>]\<rparr>" "[]"
      "\<lambda>t. 1" "''units_name_key''"]
  from t a b have "insert_and_recall_id (Tuple1 None) UnitsTable [] no_rows =
      (Inl TypeError, [], no_rows)" by blast
  moreover from u c have "select_id UnitsTable (item0 (Tuple1 (Some ''celsius'')))
     (no_rows\<lparr>tbl_units := [\<lparr>row_id = 1, row_name = ''celsius'', row_ref = None\<rparr>]\<rparr>) \<noteq> []"
    by blast
  ultimately show ?thesis using a b c by blast
qed

lemma iar_rows:
  assumes "insert_and_recall_id items t d db = (r, d', db')"
  shows "rows_of t db' = rows_of t db \<or>
    (item0 items \<noteq> None \<and> \<not> skipped t items (rows_of t db) \<and>
     rows_of t db' = rows_of t db @
       [\<lparr>row_id = new_rowid (rows_of t db), row_name = the (item0 items),
         row_ref = item1 items\<rparr>])"
proof -
  have "db' = db \<or> insert_or_ignore t items db = Inr db'"
    using assms by (cases r) (auto dest: iar_Inl(2) iar_Inr(1))
  then show ?thesis
  proof
    assume "db' = db"
    then show ?thesis by simp
  next
    assume i: "insert_or_ignore t items db = Inr db'"
    have nb: "\<not> bad_shape t items" using i by (rule ioi_not_bad)
    show ?thesis
    proof (cases "skipped t items (rows_of t db)")
      case True
      have "insert_or_ignore t items db = Inr db" using nb True by (rule ioi_skip)
      with i show ?thesis by simp
    next
      case False
      then have n: "item0 items \<noteq> None" by (cases "item0 items") (simp_all add: skipped_def)
      have "insert_or_ignore t items db = Inr (set_rows t (rows_of t db @
        [\<lparr>row_id = new_rowid (rows_of t db), row_name = the (item0 items),
          row_ref = item1 items\<rparr>]) db)"
        using nb False by (rule ioi_new)
      with i have "db' = set_rows t (rows_of t db @
        [\<lparr>row_id = new_rowid (rows_of t db), row_name = the (item0 items),
          row_ref = item1 items\<rparr>]) db" by simp
      then show ?thesis using n False by (simp add: rows_of_set_rows)
    qed
  qed
qed

lemma reg_null_units:
  assumes "get_units sensor = None"
  shows "register_sensor_ids self sensor = (Inl TypeError, self)"
proof -
  have "insert_and_recall_id (Tuple1 (get_units sensor)) UnitsTable (self_units self)
      (self_connection self) = (Inl TypeError, self_units self, self_connection self)"
    using assms by (simp add: iar_null bad_shape_def)
  then show ?thesis by (simp add: register_sensor_ids_def)
qed

lemma pg_reg_null_units:
  assumes "get_units sensor = None"
  shows "pg_register_sensor_ids nextval self sensor = Inl IntegrityError"
  using assms
  by (simp add: pg_register_sensor_ids_def pg_insert_and_recall_id_def
      pg_insert_on_conflict_def name_key_def)

lemma register_type_rows:
  "tbl_type (self_connection (snd (register_sensor_ids self sensor))) =
     tbl_type (self_connection self) \<or>
   (\<exists>units_id tn. get_type sensor = Some tn \<and>
      tn \<notin> set (map row_name (tbl_type (self_connection self))) \<and>
      tbl_type (self_connection (snd (register_sensor_ids self sensor))) =
        tbl_type (self_connection self) @
          [\<lparr>row_id = new_rowid (tbl_type (self_connection self)), row_name = tn,
            row_ref = Some units_id\<rparr>])"
proof (cases rule: reg_cases[where self=self and sensor=sensor])
  case (fail1 e d1 db1)
  have "rows_of TypeTable db1 = rows_of TypeTable (self_connection self)"
    using iar_frame(1)[OF fail1(1), of TypeTable] by simp
  then show ?thesis using fail1(2) by simp
next
  case (fail2 units_id d1 db1 e d2 db2)
  have f1: "rows_of TypeTable db1 = rows_of TypeTable (self_connection self)"
    using iar_frame(1)[OF fail2(1), of TypeTable] by simp
  have "self_connection (snd (register_sensor_ids self sensor)) = db2" using fail2(3) by simp
  then show ?thesis using iar_rows[OF fail2(2)] f1
    by (auto simp: skipped_def split: option.splits)
next
  case (fail3 units_id d1 db1 type_id d2 db2 e d3 db3)
  have f1: "rows_of TypeTable db1 = rows_of TypeTable (self_connection self)"
    using iar_frame(1)[OF fail3(1), of TypeTable] by simp
  have f3: "rows_of TypeTable db3 = rows_of TypeTable db2"
    using iar_frame(1)[OF fail3(3), of TypeTable] by simp
  have "self_connection (snd (register_sensor_ids self sensor)) = db3" using fail3(4) by simp
  then show ?thesis using iar_rows[OF fail3(2)] f1 f3
    by (auto simp: skipped_def split: option.splits)
next
  case (ok units_id d1 db1 type_id d2 db2 sensor_id d3 db3)
  have f1: "rows_of TypeTable db1 = rows_of TypeTable (self_connection self)"
    using iar_frame(1)[OF ok(1), of TypeTable] by simp
  have f3: "rows_of TypeTable db3 = rows_of TypeTable db2"
    using iar_frame(1)[OF ok(3), of TypeTable] by simp
  have "self_connection (snd (register_sensor_ids self sensor)) = db3" using ok(4) by simp
  then show ?thesis using iar_rows[OF ok(2)] f1 f3
    by (auto simp: skipped_def split: option.splits)
qed

lemma register_selects:
  assumes "register_sensor_ids self sensor = (Inr ids, self')"
  shows "fetchone (select_id UnitsTable (get_units sensor) (self_connection self')) = Some (fst ids)"
    and "fetchone (select_id TypeTable (get_type sensor) (self_connection self')) = Some (fst (snd ids))"
    and "fetchone (select_id SensorTable (get_name sensor) (self_connection self')) = Some (snd (snd ids))"
proof -
  have "fetchone (select_id UnitsTable (get_units sensor) (self_connection self')) = Some (fst ids) \<and>
    fetchone (select_id TypeTable (get_type sensor) (self_connection self')) = Some (fst (snd ids)) \<and>
    fetchone (select_id SensorTable (get_name sensor) (self_connection self')) = Some (snd (snd ids))"
  proof (cases rule: reg_cases[where self=self and sensor=sensor])
    case (fail1 e d1 db1)
    with assms show ?thesis by simp
  next
    case (fail2 units_id d1 db1 e d2 db2)
    with assms show ?thesis by simp
  next
    case (fail3 units_id d1 db1 type_id d2 db2 e d3 db3)
    with assms show ?thesis by simp
  next
    case (ok units_id d1 db1 type_id d2 db2 sensor_id d3 db3)
    from ok(4) assms have ids: "ids = (units_id, type_id, sensor_id)"
      and self': "self_connection self' = db3"
      by auto
    have f2: "rows_of UnitsTable db2 = rows_of UnitsTable db1"
      using iar_frame(1)[OF ok(2), of UnitsTable] by simp
    have f3: "rows_of UnitsTable db3 = rows_of UnitsTable db1"
      "rows_of TypeTable db3 = rows_of TypeTable db2"
      using iar_frame(1)[OF ok(3), of UnitsTable] iar_frame(1)[OF ok(3), of TypeTable] f2
      by simp_all
    have b1: "fetchone (select_id UnitsTable (get_units sensor) db3) = Some units_id"
      using iar_select_result[OF ok(1) f3(1)] by simp
    have b2: "fetchone (select_id TypeTable (get_type sensor) db3) = Some type_id"
      using iar_select_result[OF ok(2) f3(2)] by simp
    have b3: "fetchone (select_id SensorTable (get_name sensor) db3) = Some sensor_id"
      using iar_select_result[OF ok(3), of db3] by simp
    show ?thesis using b1 b2 b3 by (simp add: ids self')
  qed
  then show "fetchone (select_id UnitsTable (get_units sensor) (self_connection self')) = Some (fst ids)"
    and "fetchone (select_id TypeTable (get_type sensor) (self_connection self')) = Some (fst (snd ids))"
    and "fetchone (select_id SensorTable (get_name sensor) (self_connection self')) = Some (snd (snd ids))"
    by simp_all
qed

text \<open>
  Claim C7 as stated fails: no call of \<^verbatim>\<open>register_sensor\<close> with an absent units name
  gets to the type level, on either connector. On the empty database the call raises at
  the units level and the type table stays empty.
\<close>

theorem null_units_never_resolves:
  "\<not> (\<exists>self sensor ids self'. get_units sensor = None \<and>
        register_sensor_ids self sensor = (Inr ids, self')) \<and>
   \<not> (\<exists>nextval self sensor ids self'. get_units sensor = None \<and>
        pg_register_sensor_ids nextval self sensor = Inr (ids, self')) \<and>
   get_units no_units = None \<and>
   register_sensor_ids fresh no_units = (Inl TypeError, fresh) \<and>
   tbl_type (self_connection (snd (register_sensor_ids fresh no_units))) = []"
proof -
  have "get_units no_units = None" by (simp add: no_units_def)
  then have "register_sensor_ids fresh no_units = (Inl TypeError, fresh)"
    by (rule reg_null_units)
  then show ?thesis
    using reg_null_units pg_reg_null_units
    by (auto simp: no_units_def fresh_def no_rows_def)
qed

text \<open>
  Claim C7, amended. \<^verbatim>\<open>register_sensor\<close> has no path for an absent units
  reference. When the units name is \<^verbatim>\<open>None\<close> the call raises at the units step,
  \<^verbatim>\<open>TypeError\<close> on SQLite and \<^verbatim>\<open>IntegrityError\<close> on PostgreSQL, before the type
  step, and SQLite's connector is left as it was. Every row that a call adds to
  \<^verbatim>\<open>type\<close> carries a units reference that is not null. Uniqueness is on the type
  name alone: when the type name is already in the table, the table is left as it was,
  whatever the units of the description. When the call returns, the type is found under
  its name, with the id the call resolved. The nested function itself, given the 1-tuple
  of a new type name, stores the type with a null units reference and returns its id; no
  call site passes it one for \<^verbatim>\<open>type\<close>.
\<close>

theorem no_null_units_path:
  "(get_units sensor = None \<longrightarrow>
      register_sensor_ids self sensor = (Inl TypeError, self) \<and>
      pg_register_sensor_ids nextval self sensor = Inl IntegrityError) \<and>
   (\<forall>r \<in> set (tbl_type (self_connection (snd (register_sensor_ids self sensor)))).
      r \<in> set (tbl_type (self_connection self)) \<or> row_ref r \<noteq> None) \<and>
   (\<forall>tn. get_type sensor = Some tn \<and>
      tn \<in> set (map row_name (tbl_type (self_connection self))) \<longrightarrow>
      tbl_type (self_connection (snd (register_sensor_ids self sensor))) =
        tbl_type (self_connection self)) \<and>
   (\<forall>ids self'. register_sensor_ids self sensor = (Inr ids, self') \<longrightarrow>
      fetchone (select_id TypeTable (get_type sensor) (self_connection self')) =
        Some (fst (snd ids))) \<and>
   (tn \<notin> set (map row_name (tbl_type db)) \<longrightarrow>
      insert_and_recall_id (Tuple1 (Some tn)) TypeTable id_dict db =
        (Inr (new_rowid (tbl_type db)),
         (if map_of id_dict (Some tn) = None
          then id_dict @ [(Some tn, new_rowid (tbl_type db))] else id_dict),
         db\<lparr>tbl_type := tbl_type db @
           [\<lparr>row_id = new_rowid (tbl_type db), row_name = tn, row_ref = None\<rparr>]\<rparr>))"
proof (intro conjI)
  show "tn \<notin> set (map row_name (tbl_type db)) \<longrightarrow>
      insert_and_recall_id (Tuple1 (Some tn)) TypeTable id_dict db =
        (Inr (new_rowid (tbl_type db)),
         (if map_of id_dict (Some tn) = None
          then id_dict @ [(Some tn, new_rowid (tbl_type db))] else id_dict),
         db\<lparr>tbl_type := tbl_type db @
           [\<lparr>row_id = new_rowid (tbl_type db), row_name = tn, row_ref = None\<rparr>]\<rparr>)"
    using iar_new[of TypeTable "Tuple1 (Some tn)" tn db id_dict]
    by (simp add: bad_shape_def)
  show "get_units sensor = None \<longrightarrow>
      register_sensor_ids self sensor = (Inl TypeError, self) \<and>
      pg_register_sensor_ids nextval self sensor = Inl IntegrityError"
    using reg_null_units pg_reg_null_units by blast
  show "\<forall>r \<in> set (tbl_type (self_connection (snd (register_sensor_ids self sensor)))).
      r \<in> set (tbl_type (self_connection self)) \<or> row_ref r \<noteq> None"
    using register_type_rows[of self sensor] by auto
  show "\<forall>tn. get_type sensor = Some tn \<and>
      tn \<in> set (map row_name (tbl_type (self_connection self))) \<longrightarrow>
      tbl_type (self_connection (snd (register_sensor_ids self sensor))) =
        tbl_type (self_connection self)"
    using register_type_rows[of self sensor] by auto
  show "\<forall>ids self'. register_sensor_ids self sensor = (Inr ids, self') \<longrightarrow>
      fetchone (select_id TypeTable (get_type sensor) (self_connection self')) =
        Some (fst (snd ids))"
    using register_selects(2) by blast
qed

lemma reg_humidA:
  "register_sensor_ids after_tempA humidA = (Inr (1, 2, 1), after_humidA)"
  by (simp add: register_sensor_ids_def insert_and_recall_id_def insert_or_ignore_def
      select_id_def fetchone_def new_rowid_def after_tempA_def humidA_def after_humidA_def)

lemma register_sensor_rows_present:
  assumes "get_name sensor = Some n"
    and "n \<in> set (map row_name (tbl_sensor (self_connection self)))"
  shows "tbl_sensor (self_connection (snd (register_sensor_ids self sensor))) =
    tbl_sensor (self_connection self)"
proof -
  have k: "rows_of SensorTable db2 = rows_of SensorTable (self_connection self) \<Longrightarrow>
      insert_and_recall_id (Tuple2 (get_name sensor) type_id) SensorTable d db2 = (r, d3, db3) \<Longrightarrow>
      rows_of SensorTable db3 = rows_of SensorTable (self_connection self)"
    for db2 type_id d r d3 db3
  proof -
    assume e: "rows_of SensorTable db2 = rows_of SensorTable (self_connection self)"
      and i: "insert_and_recall_id (Tuple2 (get_name sensor) type_id) SensorTable d db2 = (r, d3, db3)"
    have "skipped SensorTable (Tuple2 (get_name sensor) type_id) (rows_of SensorTable db2)"
      using assms e by (simp add: skipped_def)
    then show ?thesis using iar_rows[OF i] e by auto
  qed
  show ?thesis
  proof (cases rule: reg_cases[where self=self and sensor=sensor])
    case (fail1 e d1 db1)
    have "rows_of SensorTable db1 = rows_of SensorTable (self_connection self)"
      using iar_frame(1)[OF fail1(1), of SensorTable] by simp
    then show ?thesis using fail1(2) by simp
  next
    case (fail2 units_id d1 db1 e d2 db2)
    have "rows_of SensorTable db2 = rows_of SensorTable (self_connection self)"
      using iar_frame(1)[OF fail2(1), of SensorTable] iar_frame(1)[OF fail2(2), of SensorTable]
      by simp
    then show ?thesis using fail2(3) by simp
  next
    case (fail3 units_id d1 db1 type_id d2 db2 e d3 db3)
    have "rows_of SensorTable db2 = rows_of SensorTable (self_connection self)"
      using iar_frame(1)[OF fail3(1), of SensorTable] iar_frame(1)[OF fail3(2), of SensorTable]
      by simp
    then have "rows_of SensorTable db3 = rows_of SensorTable (self_connection self)"
      using fail3(3) by (rule k)
    then show ?thesis using fail3(4) by simp
  next
    case (ok units_id d1 db1 type_id d2 db2 sensor_id d3 db3)
    have "rows_of SensorTable db2 = rows_of SensorTable (self_connection self)"
      using iar_frame(1)[OF ok(1), of SensorTable] iar_frame(1)[OF ok(2), of SensorTable]
      by simp
    then have "rows_of SensorTable db3 = rows_of SensorTable (self_connection self)"
      using ok(3) by (rule k)
    then show ?thesis using ok(4) by simp
  qed
qed

lemma register_succeeds:
  assumes "get_units sensor = Some un" and "get_type sensor = Some tn"
    and "get_name sensor = Some sn"
  shows "\<exists>ids self'. register_sensor_ids self sensor = (Inr ids, self')"
proof (cases rule: reg_cases[where self=self and sensor=sensor])
  case (fail1 e d1 db1)
  from iar_some[of UnitsTable "Tuple1 (get_units sensor)" un "self_units self" "self_connection self"]
    assms(1) fail1(1)
  show ?thesis by (simp add: bad_shape_def)
next
  case (fail2 units_id d1 db1 e d2 db2)
  from iar_some[of TypeTable "Tuple2 (get_type sensor) units_id" tn "self_types self" db1]
    assms(2) fail2(2)
  show ?thesis by (simp add: bad_shape_def)
next
  case (fail3 units_id d1 db1 type_id d2 db2 e d3 db3)
  from iar_some[of SensorTable "Tuple2 (get_name sensor) type_id" sn "self_sensors self" db2]
    assms(3) fail3(3)
  show ?thesis by (simp add: bad_shape_def)
next
  case (ok units_id d1 db1 type_id d2 db2 sensor_id d3 db3)
  then show ?thesis by blast
qed

text \<open>
  Claim C8. When the sensor name of the description is already in \<^verbatim>\<open>sensor\<close>,
  \<^verbatim>\<open>register_sensor\<close> leaves the sensor table exactly as it was, whatever type and
  units the description names: the row keeps its type reference. When the call returns,
  the sensor id it resolved is the id of that existing row, and it does return whenever
  the description has a units name and a type name.
\<close>

theorem sensor_type_not_updated:
  assumes "get_name sensor = Some n"
    and "n \<in> set (map row_name (tbl_sensor (self_connection self)))"
  shows "tbl_sensor (self_connection (snd (register_sensor_ids self sensor))) =
      tbl_sensor (self_connection self) \<and>
    (\<forall>ids self'. register_sensor_ids self sensor = (Inr ids, self') \<longrightarrow>
       fetchone (select_id SensorTable (Some n) (self_connection self)) = Some (snd (snd ids))) \<and>
    (get_units sensor \<noteq> None \<and> get_type sensor \<noteq> None \<longrightarrow>
       (\<exists>ids self'. register_sensor_ids self sensor = (Inr ids, self')))"
proof (intro conjI allI impI)
  show same: "tbl_sensor (self_connection (snd (register_sensor_ids self sensor))) =
      tbl_sensor (self_connection self)"
    using assms by (rule register_sensor_rows_present)
  show "fetchone (select_id SensorTable (Some n) (self_connection self)) = Some (snd (snd ids))"
    if r: "register_sensor_ids self sensor = (Inr ids, self')" for ids self'
  proof -
    have "rows_of SensorTable (self_connection self) = rows_of SensorTable (self_connection self')"
      using same r by simp
    then have "select_id SensorTable (Some n) (self_connection self) =
        select_id SensorTable (Some n) (self_connection self')"
      by (rule select_id_cong)
    then show ?thesis using register_selects(3)[OF r] assms(1) by simp
  qed
  show "\<exists>ids self'. register_sensor_ids self sensor = (Inr ids, self')"
    if "get_units sensor \<noteq> None \<and> get_type sensor \<noteq> None"
    using that assms(1) register_succeeds[of sensor _ _ n self] by auto
qed

theorem sensor_type_not_updated_witness:
  "get_name humidA = Some ''tempA'' \<and>
   ''tempA'' \<in> set (map row_name (tbl_sensor (self_connection after_tempA))) \<and>
   get_type humidA \<noteq> get_type tempA \<and>
   register_sensor_ids after_tempA humidA = (Inr (1, 2, 1), after_humidA) \<and>
   tbl_sensor (self_connection after_humidA) =
     [\<lparr>row_id = 1, row_name = ''tempA'', row_ref = Some 1\<rparr>] \<and>
   fetchone (select_id SensorTable (Some ''tempA'') (self_connection after_tempA)) = Some 1"
proof -
  have h1: "get_name humidA = Some ''tempA''" by (simp add: humidA_def)
  have h2: "''tempA'' \<in> set (map row_name (tbl_sensor (self_connection after_tempA)))"
    by (simp add: after_tempA_def)
  note t = sensor_type_not_updated[OF h1 h2]
  from t reg_humidA have
    "tbl_sensor (self_connection after_humidA) = tbl_sensor (self_connection after_tempA)"
    "fetchone (select_id SensorTable (Some ''tempA'') (self_connection after_tempA)) = Some 1"
    by auto
  then show ?thesis using h1 h2 reg_humidA
    by (simp add: humidA_def tempA_def) (simp add: after_tempA_def)
qed

theorem no_null_units_path_witness:
  "get_units no_units = None \<and>
   register_sensor_ids fresh no_units = (Inl TypeError, fresh) \<and>
   pg_register_sensor_ids (\<lambda>t. 1) fresh no_units = Inl IntegrityError \<and>
   get_type tempK = Some ''temperature'' \<and>
   ''temperature'' \<in> set (map row_name (tbl_type (self_connection after_tempA))) \<and>
   tbl_type (self_connection (snd (register_sensor_ids after_tempA tempK))) =
     [\<lparr>row_id = 1, row_name = ''temperature'', row_ref = Some 1\<rparr>] \<and>
   register_sensor_ids fresh tempA = (Inr (1, 1, 1), after_tempA) \<and>
   fetchone (select_id TypeTable (get_type tempA) (self_connection after_tempA)) = Some 1 \<and>
   ''temperature'' \<notin> set (map row_name (tbl_type no_rows)) \<and>
   insert_and_recall_id (Tuple1 (Some ''temperature'')) TypeTable [] no_rows =
     (Inr 1, [(Some ''temperature'', 1)],
      no_rows\<lparr>tbl_type := [\<lparr>row_id = 1, row_name = ''temperature'', row_ref = None\<rparr>]\<rparr>)"
proof -
  have h4: "''temperature'' \<notin> set (map row_name (tbl_type no_rows))"
    by (simp add: no_rows_def)
  from no_null_units_path[of tempA fresh "\<lambda>t. 1" "''temperature''" no_rows "[]"] h4
  have d: "insert_and_recall_id (Tuple1 (Some ''temperature'')) TypeTable [] no_rows =
     (Inr 1, [(Some ''temperature'', 1)],
      no_rows\<lparr>tbl_type := [\<lparr>row_id = 1, row_name = ''temperature'', row_ref = None\<rparr>]\<rparr>)"
    by (simp add: no_rows_def new_rowid_def)
  have h1: "get_units no_units = None" by (simp add: no_units_def)
  have h2: "get_type tempK = Some ''temperature''" by (simp add: tempK_def)
  have h3: "''temperature'' \<in> set (map row_name (tbl_type (self_connection after_tempA)))"
    by (simp add: after_tempA_def)
  from no_null_units_path[of no_units fresh "\<lambda>t. 1"] h1
  have a: "register_sensor_ids fresh no_units = (Inl TypeError, fresh)"
    "pg_register_sensor_ids (\<lambda>t. 1) fresh no_units = Inl IntegrityError"
    by blast+
  from no_null_units_path[of tempK after_tempA] h2 h3
  have "tbl_type (self_connection (snd (register_sensor_ids after_tempA tempK))) =
     tbl_type (self_connection after_tempA)"
    by blast
  then have b: "tbl_type (self_connection (snd (register_sensor_ids after_tempA tempK))) =
     [\<lparr>row_id = 1, row_name = ''temperature'', row_ref = Some 1\<rparr>]"
    by (simp add: after_tempA_def)
  from no_null_units_path[of tempA fresh] reg_fresh_tempA
  have c: "fetchone (select_id TypeTable (get_type tempA) (self_connection after_tempA)) = Some 1"
    by auto
  show ?thesis using h1 h2 h3 h4 a b c d reg_fresh_tempA by blast
qed

section \<open>Rows are only added\<close>

lemma rows_kept_refl: "rows_kept db db"
  by (simp add: rows_kept_def)

lemma rows_kept_trans: "rows_kept a b \<Longrightarrow> rows_kept b c \<Longrightarrow> rows_kept a c"
  by (auto simp: rows_kept_def intro: prefix_order.trans)

lemma rows_kept_tables:
  assumes "\<And>t. prefix (rows_of t db) (rows_of t db')"
    and "prefix (tbl_measurement db) (tbl_measurement db')"
  shows "rows_kept db db'"
  using assms(1)[of UnitsTable] assms(1)[of TypeTable] assms(1)[of SensorTable] assms(2)
  by (simp add: rows_kept_def)

lemma iar_rows_kept:
  assumes "insert_and_recall_id items t d db = (r, d', db')"
  shows "rows_kept db db'"
proof (rule rows_kept_tables)
  show "prefix (tbl_measurement db) (tbl_measurement db')"
    using iar_frame(2)[OF assms] by simp
  show "prefix (rows_of t' db) (rows_of t' db')" for t'
  proof (cases "t' = t")
    case True
    then show ?thesis using iar_rows[OF assms] by auto
  next
    case False
    then show ?thesis using iar_frame(1)[OF assms, of t'] by simp
  qed
qed

lemma register_rows_kept:
  "rows_kept (self_connection self) (self_connection (snd (register_sensor_ids self sensor)))"
proof (cases rule: reg_cases[where self=self and sensor=sensor])
  case (fail1 e d1 db1)
  show ?thesis using iar_rows_kept[OF fail1(1)] fail1(2) by simp
next
  case (fail2 units_id d1 db1 e d2 db2)
  show ?thesis
    using rows_kept_trans[OF iar_rows_kept[OF fail2(1)] iar_rows_kept[OF fail2(2)]] fail2(3)
    by simp
next
  case (fail3 units_id d1 db1 type_id d2 db2 e d3 db3)
  show ?thesis
    using rows_kept_trans[OF rows_kept_trans[OF iar_rows_kept[OF fail3(1)]
        iar_rows_kept[OF fail3(2)]] iar_rows_kept[OF fail3(3)]] fail3(4)
    by simp
next
  case (ok units_id d1 db1 type_id d2 db2 sensor_id d3 db3)
  show ?thesis
    using rows_kept_trans[OF rows_kept_trans[OF iar_rows_kept[OF ok(1)]
        iar_rows_kept[OF ok(2)]] iar_rows_kept[OF ok(3)]] ok(4)
    by simp
qed

lemma store_rows_kept:
  "rows_kept (self_connection self) (self_connection (snd (store_measurement self meas)))"
  using store_cases[of self meas] by (auto simp: rows_kept_def)

lemma step_rows_kept: "rows_kept (self_connection self) (self_connection (step self op))"
  by (cases op) (simp_all add: register_sensor_snd register_rows_kept store_rows_kept)

lemma run_rows_kept: "rows_kept (self_connection self) (self_connection (run ops self))"
proof (induction ops arbitrary: self)
  case Nil
  show ?case by (simp add: run_def rows_kept_refl)
next
  case (Cons op ops)
  have "rows_kept (self_connection (step self op)) (self_connection (run ops (step self op)))"
    by (rule Cons.IH)
  then have "rows_kept (self_connection self) (self_connection (run ops (step self op)))"
    using step_rows_kept rows_kept_trans by blast
  then show ?case by (simp add: run_def)
qed

lemma pg_ioi_cases:
  assumes "pg_insert_on_conflict nextval t items c db = Inr db1"
  shows "db1 = db \<or> (\<exists>r. db1 = set_rows t (rows_of t db @ [r]) db)"
  using assms
  by (cases "item0 items") (auto simp: pg_insert_on_conflict_def split: if_splits)

lemma pg_ioi_rows_kept:
  assumes "pg_insert_on_conflict nextval t items c db = Inr db1"
  shows "rows_kept db db1"
  using pg_ioi_cases[OF assms] by (cases t) (auto simp: rows_kept_def)

lemma pg_iar_Inr:
  assumes "pg_insert_and_recall_id nextval items t c d db = Inr (i, d', db')"
  shows "pg_insert_on_conflict nextval t items c db = Inr db'"
    and "fetchone (select_id t (item0 items) db') = Some i"
    and "d' = (if map_of d (item0 items) = None then d @ [(item0 items, i)] else d)"
  using assms
  by (auto simp: pg_insert_and_recall_id_def split: sum.splits option.splits)

lemma pg_reg_Inr:
  assumes "pg_register_sensor_ids nextval self sensor = Inr (ids, self')"
  obtains units_id d1 db1 type_id d2 db2 sensor_id d3 db3 where
    "pg_insert_and_recall_id nextval (Tuple1 (get_units sensor)) UnitsTable ''units_name_key''
       (self_units self) (self_connection self) = Inr (units_id, d1, db1)"
    "pg_insert_and_recall_id nextval (Tuple2 (get_type sensor) units_id) TypeTable
       ''type_name_key'' (self_types self) db1 = Inr (type_id, d2, db2)"
    "pg_insert_and_recall_id nextval (Tuple2 (get_name sensor) type_id) SensorTable
       ''sensor_name_key'' (self_sensors self) db2 = Inr (sensor_id, d3, db3)"
    "ids = (units_id, type_id, sensor_id)"
    "self' = self\<lparr>self_connection := db3, self_units := d1, self_types := d2,
       self_sensors := d3\<rparr>"
  using assms
  by (auto simp: pg_register_sensor_ids_def split: sum.splits prod.splits)

lemma pg_register_rows_kept:
  assumes "pg_register_sensor_ids nextval self sensor = Inr (ids, self')"
  shows "rows_kept (self_connection self) (self_connection self')"
proof -
  from assms obtain units_id d1 db1 type_id d2 db2 sensor_id d3 db3 where
    s: "pg_insert_and_recall_id nextval (Tuple1 (get_units sensor)) UnitsTable ''units_name_key''
       (self_units self) (self_connection self) = Inr (units_id, d1, db1)"
    "pg_insert_and_recall_id nextval (Tuple2 (get_type sensor) units_id) TypeTable
       ''type_name_key'' (self_types self) db1 = Inr (type_id, d2, db2)"
    "pg_insert_and_recall_id nextval (Tuple2 (get_name sensor) type_id) SensorTable
       ''sensor_name_key'' (self_sensors self) db2 = Inr (sensor_id, d3, db3)"
    and e: "self' = self\<lparr>self_connection := db3, self_units := d1, self_types := d2,
       self_sensors := d3\<rparr>"
    by (rule pg_reg_Inr)
  have "rows_kept (self_connection self) db1" "rows_kept db1 db2" "rows_kept db2 db3"
    using pg_ioi_rows_kept[OF pg_iar_Inr(1)[OF s(1)]] pg_ioi_rows_kept[OF pg_iar_Inr(1)[OF s(2)]]
      pg_ioi_rows_kept[OF pg_iar_Inr(1)[OF s(3)]]
    by simp_all
  then show ?thesis using rows_kept_trans e by auto
qed

lemma pg_store_rows_kept:
  assumes "pg_store_measurement self meas = Inr self'"
  shows "rows_kept (self_connection self) (self_connection self')"
  using assms
  by (auto simp: pg_store_measurement_def insert_measurement_def rows_kept_def
      split: option.splits if_splits)

text \<open>
  Were \<^verbatim>\<open>sqlite3\<close> bound in the module's globals, the statements of
  \<^verbatim>\<open>_create_database\<close> would run and the connector would start on four empty
  tables, as the docstring of the method says.
\<close>

lemma create_database_when_bound:
  "DatabaseConnector_init True db = Inr fresh \<and> file_after_init True db = no_rows"
  by (simp add: DatabaseConnector_init_def create_database_def file_after_init_def fresh_def
      no_rows_def)

text \<open>
  Claim C9. No operation of the two connectors removes or changes a row. After any
  sequence of \<^verbatim>\<open>register_sensor\<close> and \<^verbatim>\<open>store_measurement\<close> calls on a
  \<^verbatim>\<open>DatabaseConnector\<close>, returning or raising, and after any call on a
  \<^verbatim>\<open>PostgreSQLConnector\<close> that returns, every table is the table before with rows
  added at its end, so measurement rows are only appended. The construction of a
  \<^verbatim>\<open>PostgreSQLConnector\<close> leaves the database as it is. The construction of a
  \<^verbatim>\<open>DatabaseConnector\<close>, in the module as it stands, raises \<^verbatim>\<open>NameError\<close> at
  the first statement of \<^verbatim>\<open>_create_database\<close> (line 43), before any
  \<^verbatim>\<open>DROP TABLE\<close>, and leaves the file as it was.
\<close>

theorem rows_never_removed:
  "rows_kept (self_connection self) (self_connection (run ops self)) \<and>
   (\<forall>ids self'. pg_register_sensor_ids nextval self sensor = Inr (ids, self') \<longrightarrow>
      rows_kept (self_connection self) (self_connection self')) \<and>
   (\<forall>self'. pg_store_measurement self meas = Inr self' \<longrightarrow>
      rows_kept (self_connection self) (self_connection self')) \<and>
   self_connection (PostgreSQLConnector_init db) = db \<and>
   DatabaseConnector_init False db = Inl NameError \<and>
   file_after_init False db = db"
  using run_rows_kept pg_register_rows_kept pg_store_rows_kept
  by (auto simp: PostgreSQLConnector_init_def DatabaseConnector_init_def create_database_def
      file_after_init_def)

section \<open>The two connectors compared\<close>

lemma fold_max_ge: "(a::int) \<le> fold max xs a"
proof (induction xs arbitrary: a)
  case Nil
  show ?case by simp
next
  case (Cons y ys)
  have "a \<le> max y a" by simp
  also have "\<dots> \<le> fold max ys (max y a)" by (rule Cons.IH)
  finally show ?case by simp
qed

lemma fold_max_mem: "x \<in> set xs \<Longrightarrow> (x::int) \<le> fold max xs a"
proof (induction xs arbitrary: a)
  case Nil
  then show ?case by simp
next
  case (Cons y ys)
  show ?case
  proof (cases "x = y")
    case True
    have "y \<le> max y a" by simp
    also have "\<dots> \<le> fold max ys (max y a)" by (rule fold_max_ge)
    finally show ?thesis using True by simp
  next
    case False
    with Cons show ?thesis by simp
  qed
qed

lemma new_rowid_fresh: "r \<in> set rs \<Longrightarrow> row_id r < new_rowid rs"
proof (cases rs)
  case Nil
  assume "r \<in> set rs"
  with Nil show ?thesis by simp
next
  case (Cons a as)
  assume "r \<in> set rs"
  then have "row_id r = row_id a \<or> row_id r \<in> set (map row_id as)" using Cons by auto
  then have "row_id r \<le> fold max (map row_id as) (row_id a)"
    using fold_max_ge[of "row_id a" "map row_id as"]
      fold_max_mem[of "row_id r" "map row_id as" "row_id a"]
    by auto
  then show ?thesis using Cons by (simp add: new_rowid_def)
qed

lemma new_rowid_unused: "new_rowid rs \<notin> set (map row_id rs)"
proof
  assume "new_rowid rs \<in> set (map row_id rs)"
  then obtain r where "r \<in> set rs" "row_id r = new_rowid rs" by auto
  then show False using new_rowid_fresh[of r rs] by simp
qed

lemma pg_ioi_eq:
  assumes "\<not> bad_shape t items" and "item0 items = Some n"
    and "\<not> (t = SensorTable \<and> item1 items = None)"
    and "nextval t = new_rowid (rows_of t db)"
  shows "pg_insert_on_conflict nextval t items (name_key t) db = insert_or_ignore t items db"
proof (cases "n \<in> set (map row_name (rows_of t db))")
  case True
  then have "skipped t items (rows_of t db)" using assms(2) by (simp add: skipped_def)
  then have "insert_or_ignore t items db = Inr db" using assms(1) by (simp add: ioi_skip)
  moreover have "pg_insert_on_conflict nextval t items (name_key t) db = Inr db"
    using assms(1,2,3) True by (simp add: pg_insert_on_conflict_def bad_shape_def)
  ultimately show ?thesis by simp
next
  case False
  then have "\<not> skipped t items (rows_of t db)" using assms(2,3) by (simp add: skipped_def)
  then have "insert_or_ignore t items db = Inr (set_rows t (rows_of t db @
       [\<lparr>row_id = new_rowid (rows_of t db), row_name = the (item0 items),
         row_ref = item1 items\<rparr>]) db)"
    using assms(1) by (simp add: ioi_new)
  moreover have "pg_insert_on_conflict nextval t items (name_key t) db =
      Inr (set_rows t (rows_of t db @
       [\<lparr>row_id = new_rowid (rows_of t db), row_name = the (item0 items),
         row_ref = item1 items\<rparr>]) db)"
    using assms False new_rowid_unused[of "rows_of t db"]
    by (simp add: pg_insert_on_conflict_def bad_shape_def)
  ultimately show ?thesis by simp
qed

lemma pg_iar_eq:
  assumes "\<not> bad_shape t items" and "item0 items = Some n"
    and "\<not> (t = SensorTable \<and> item1 items = None)"
    and "nextval t = new_rowid (rows_of t db)"
  shows "\<exists>i d' db'. insert_and_recall_id items t d db = (Inr i, d', db') \<and>
    pg_insert_and_recall_id nextval items t (name_key t) d db = Inr (i, d', db')"
proof -
  from iar_some[OF assms(1,2,3), of d db] obtain i d' db' where
    s: "insert_and_recall_id items t d db = (Inr i, d', db')" by blast
  note f = iar_Inr[OF s]
  have "pg_insert_on_conflict nextval t items (name_key t) db = Inr db'"
    using pg_ioi_eq[of t items n nextval db] assms f(1) by simp
  then have "pg_insert_and_recall_id nextval items t (name_key t) d db = Inr (i, d', db')"
    using f(2) f(3) by (simp add: pg_insert_and_recall_id_def)
  with s show ?thesis by blast
qed

lemma name_keys:
  "name_key UnitsTable = ''units_name_key''" "name_key TypeTable = ''type_name_key''"
  "name_key SensorTable = ''sensor_name_key''"
  by (simp_all add: name_key_def)

lemma backends_agree_names:
  assumes "get_units sensor = Some un" and "get_type sensor = Some tn"
    and "get_name sensor = Some sn"
    and "nextval UnitsTable = new_rowid (tbl_units (self_connection self))"
    and "nextval TypeTable = new_rowid (tbl_type (self_connection self))"
    and "nextval SensorTable = new_rowid (tbl_sensor (self_connection self))"
  shows "\<exists>ids self'. register_sensor_ids self sensor = (Inr ids, self') \<and>
    pg_register_sensor_ids nextval self sensor = Inr (ids, self')"
proof -
  from pg_iar_eq[of UnitsTable "Tuple1 (get_units sensor)" un nextval "self_connection self"
      "self_units self"] assms(1,4)
  obtain units_id d1 db1 where
    s1: "insert_and_recall_id (Tuple1 (get_units sensor)) UnitsTable (self_units self)
           (self_connection self) = (Inr units_id, d1, db1)"
    and p1: "pg_insert_and_recall_id nextval (Tuple1 (get_units sensor)) UnitsTable
           ''units_name_key'' (self_units self) (self_connection self) = Inr (units_id, d1, db1)"
    by (auto simp: bad_shape_def name_keys)
  have f1: "rows_of TypeTable db1 = rows_of TypeTable (self_connection self)"
    "rows_of SensorTable db1 = rows_of SensorTable (self_connection self)"
    using iar_frame(1)[OF s1, of TypeTable] iar_frame(1)[OF s1, of SensorTable] by simp_all
  from pg_iar_eq[of TypeTable "Tuple2 (get_type sensor) units_id" tn nextval db1
      "self_types self"] assms(2,5) f1(1)
  obtain type_id d2 db2 where
    s2: "insert_and_recall_id (Tuple2 (get_type sensor) units_id) TypeTable (self_types self) db1
           = (Inr type_id, d2, db2)"
    and p2: "pg_insert_and_recall_id nextval (Tuple2 (get_type sensor) units_id) TypeTable
           ''type_name_key'' (self_types self) db1 = Inr (type_id, d2, db2)"
    by (auto simp: bad_shape_def name_keys)
  have f2: "rows_of SensorTable db2 = rows_of SensorTable (self_connection self)"
    using iar_frame(1)[OF s2, of SensorTable] f1(2) by simp
  from pg_iar_eq[of SensorTable "Tuple2 (get_name sensor) type_id" sn nextval db2
      "self_sensors self"] assms(3,6) f2
  obtain sensor_id d3 db3 where
    s3: "insert_and_recall_id (Tuple2 (get_name sensor) type_id) SensorTable (self_sensors self) db2
           = (Inr sensor_id, d3, db3)"
    and p3: "pg_insert_and_recall_id nextval (Tuple2 (get_name sensor) type_id) SensorTable
           ''sensor_name_key'' (self_sensors self) db2 = Inr (sensor_id, d3, db3)"
    by (auto simp: bad_shape_def name_keys)
  have "register_sensor_ids self sensor = (Inr (units_id, type_id, sensor_id),
      self\<lparr>self_connection := db3, self_units := d1, self_types := d2, self_sensors := d3\<rparr>)"
    using s1 s2 s3 by (simp add: register_sensor_ids_def)
  moreover have "pg_register_sensor_ids nextval self sensor = Inr ((units_id, type_id, sensor_id),
      self\<lparr>self_connection := db3, self_units := d1, self_types := d2, self_sensors := d3\<rparr>)"
    using p1 p2 p3 by (simp add: pg_register_sensor_ids_def)
  ultimately show ?thesis by blast
qed




lemma pg_reg_fresh_tempA:
  "pg_register_sensor_ids (\<lambda>t. 1) fresh tempA = Inr ((1, 1, 1), after_tempA)"
proof -
  have "\<exists>ids self'. register_sensor_ids fresh tempA = (Inr ids, self') \<and>
    pg_register_sensor_ids (\<lambda>t. 1) fresh tempA = Inr (ids, self')"
    by (rule backends_agree_names[of tempA "''celsius''" "''temperature''" "''tempA''"])
       (simp_all add: tempA_def fresh_def no_rows_def new_rowid_def)
  then show ?thesis by (simp add: reg_fresh_tempA)
qed

lemma pg_store_10h: "pg_store_measurement after_tempA (meas_10h 21.5) = Inr after_10h"
  by (simp add: pg_store_measurement_def insert_measurement_def after_tempA_def meas_10h_def
      after_10h_def)

theorem rows_never_removed_witness:
  "rows_kept (self_connection fresh)
     (self_connection (run [Register tempA, Store (meas_10h 21.5), Register humidA] fresh)) \<and>
   pg_register_sensor_ids (\<lambda>t. 1) fresh tempA = Inr ((1, 1, 1), after_tempA) \<and>
   rows_kept (self_connection fresh) (self_connection after_tempA) \<and>
   pg_store_measurement after_tempA (meas_10h 21.5) = Inr after_10h \<and>
   rows_kept (self_connection after_tempA) (self_connection after_10h) \<and>
   self_connection (PostgreSQLConnector_init (self_connection after_10h)) =
     self_connection after_10h \<and>
   DatabaseConnector_init False (self_connection after_10h) = Inl NameError \<and>
   file_after_init False (self_connection after_10h) = self_connection after_10h"
proof -
  note t = rows_never_removed[of fresh "[Register tempA, Store (meas_10h 21.5), Register humidA]"
      "\<lambda>t. 1" tempA "meas_10h 21.5" "self_connection after_10h"]
  note u = rows_never_removed[of after_tempA "[]" "\<lambda>t. 1" tempA "meas_10h 21.5"
      "self_connection after_10h"]
  from t pg_reg_fresh_tempA have
    "rows_kept (self_connection fresh) (self_connection after_tempA)" by blast
  moreover from u pg_store_10h have
    "rows_kept (self_connection after_tempA) (self_connection after_10h)" by blast
  ultimately show ?thesis using t pg_reg_fresh_tempA pg_store_10h by blast
qed




















end
